theory Spec2Isabelle
  imports Complex_Main "HOL-Library.Sublist" "HOL-Library.Log_Nat"
begin

section \<open>Strings\<close>

text \<open>
  Python strings are modelled as \<open>string\<close> (lists of 8-bit characters). The test
  \<^verbatim>\<open>k in s\<close> on strings is the contiguous-sublist test \<open>sublist k s\<close>.
  \<^verbatim>\<open>str.lower()\<close> maps the letters A to Z to a to z and leaves every other
  character alone (the case mapping of characters outside ASCII is not modelled).
\<close>

definition lower_char :: "char \<Rightarrow> char" where
  "lower_char c =
     (case map_of (zip ''ABCDEFGHIJKLMNOPQRSTUVWXYZ'' ''abcdefghijklmnopqrstuvwxyz'') c of
        Some d \<Rightarrow> d
      | None \<Rightarrow> c)"

definition lower :: "string \<Rightarrow> string" where
  "lower s = map lower_char s"

text \<open>\<^verbatim>\<open>any(k in s for k in ks)\<close>\<close>

definition any_in :: "string list \<Rightarrow> string \<Rightarrow> bool" where
  "any_in ks s = list_ex (\<lambda>k. sublist k s) ks"

section \<open>Floating point\<close>

text \<open>
  A Python float is an IEEE 754 binary64 number, modelled by the rational it denotes.
  \<open>double x\<close> is the float nearest to \<open>x\<close>, ties going to the even significand:
  the value of a decimal literal, and the result of an arithmetic operation applied to
  its exact result. The unit in the last place is \<open>2\<close> to the power \<open>e - 52\<close> for
  \<open>x\<close> between \<open>2\<close> to the \<open>e\<close> and \<open>2\<close> to the \<open>e + 1\<close>, and
  \<open>2\<close> to the \<open>- 1074\<close> below the normal range. Overflow to infinity is not
  modelled: no magnitude near the largest float occurs.
\<close>

definition round_half_even :: "rat \<Rightarrow> int" where
  "round_half_even y =
     (let f = \<lfloor>y\<rfloor>; d = y - of_int f
      in if d < 1 / 2 then f else if 1 / 2 < d then f + 1 else if even f then f else f + 1)"

text \<open>For a positive \<open>x\<close>, the \<open>e\<close> with \<open>x\<close> from \<open>2 ^ e\<close> up to \<open>2 ^ (e + 1)\<close>.\<close>

definition floor_log2 :: "rat \<Rightarrow> int" where
  "floor_log2 x = (if 1 \<le> x then bitlen \<lfloor>x\<rfloor> - 1 else - bitlen (\<lceil>1 / x\<rceil> - 1))"

definition double :: "rat \<Rightarrow> rat" where
  "double x =
     (if x = 0 then 0
      else (let e = max (floor_log2 \<bar>x\<bar>) (- 1022); ulp = 2 powi (e - 52)
            in of_int (round_half_even (x / ulp)) * ulp))"

text \<open>Float addition and multiplication: the exact result, rounded.\<close>

definition fadd :: "rat \<Rightarrow> rat \<Rightarrow> rat" where
  "fadd x y = double (x + y)"

definition fmul :: "rat \<Rightarrow> rat \<Rightarrow> rat" where
  "fmul x y = double (x * y)"

text \<open>Half a unit in the last place of the floats from 1 up to 2.\<close>

definition unit_roundoff :: rat where
  "unit_roundoff = 1 / 2 ^ 53"

section \<open>Intent classifier (backend/api/main.py, TravelAgentOrchestrator.detect\_intent)\<close>

definition location_words :: "string list" where
  "location_words =
     [''goa'', ''kerala'', ''rajasthan'', ''himachal'', ''kashmir'', ''delhi'', ''mumbai'',
      ''bangalore'']"

definition date_words :: "string list" where
  "date_words =
     [''26th'', ''27th'', ''28th'', ''29th'', ''30th'', ''31st'', ''january'', ''february'',
      ''march'', ''april'', ''may'', ''june'', ''july'', ''august'', ''september'', ''october'',
      ''november'', ''december'', ''today'', ''tomorrow'', ''next week'', ''next month'']"

definition duration_words :: "string list" where
  "duration_words =
     [''days'', ''day'', ''weeks'', ''week'', ''months'', ''month'', ''10 days'', ''7 days'',
      ''5 days'', ''3 days'']"

definition planning_words :: "string list" where
  "planning_words =
     [''plan'', ''itinerary'', ''schedule'', ''trip'', ''vacation'', ''days'', ''week'']"

definition booking_words :: "string list" where
  "booking_words = [''book'', ''reserve'', ''flight'', ''hotel'', ''ticket'', ''accommodation'']"

definition poi_words :: "string list" where
  "poi_words =
     [''attraction'', ''visit'', ''see'', ''activity'', ''things to do'', ''sightseeing'',
      ''temple'', ''fort'']"

definition trip_monitor_words :: "string list" where
  "trip_monitor_words =
     [''status'', ''update'', ''weather'', ''delay'', ''cancel'', ''alert'', ''monitor'']"

definition day_of_words :: "string list" where
  "day_of_words =
     [''navigate'', ''direction'', ''where'', ''help'', ''emergency'', ''now'', ''current'']"

definition detect_intent :: "string \<Rightarrow> string" where
  "detect_intent message =
     (let message_lower = lower message;
          has_location = any_in location_words message_lower;
          has_dates = any_in date_words message_lower;
          has_duration = any_in duration_words message_lower
      in if has_location \<and> (has_dates \<or> has_duration) then ''multi_agent''
         else if has_location then ''place''
         else if any_in planning_words message_lower then ''planning''
         else if any_in booking_words message_lower then ''booking''
         else if any_in poi_words message_lower then ''poi''
         else if any_in trip_monitor_words message_lower then ''trip_monitor''
         else if any_in day_of_words message_lower then ''day_of''
         else ''inspiration'')"

subsection \<open>The classifier as the specification words it\<close>

text \<open>
  The specification describes the classifier as a priority list of rules, each a label
  with a predicate on the lower-cased message, the first matching rule winning and
  \<open>inspiration\<close> being the default. \<open>classify_by_rules\<close> is that reading, written
  independently of \<open>detect_intent\<close>.
\<close>

fun first_match :: "(string \<times> (string \<Rightarrow> bool)) list \<Rightarrow> string \<Rightarrow> string \<Rightarrow> string" where
  "first_match [] dflt s = dflt"
| "first_match ((label, matches) # rules) dflt s =
     (if matches s then label else first_match rules dflt s)"

definition intent_rules :: "(string \<times> (string \<Rightarrow> bool)) list" where
  "intent_rules =
     [(''multi_agent'',
         \<lambda>s. any_in location_words s \<and> (any_in date_words s \<or> any_in duration_words s)),
      (''place'', any_in location_words),
      (''planning'', any_in planning_words),
      (''booking'', any_in booking_words),
      (''poi'', any_in poi_words),
      (''trip_monitor'', any_in trip_monitor_words),
      (''day_of'', any_in day_of_words)]"

definition classify_by_rules :: "string \<Rightarrow> string" where
  "classify_by_rules message = first_match intent_rules ''inspiration'' (lower message)"

section \<open>Data model (backend/api/personalized\_ai.py)\<close>

text \<open>
  Exceptions are values. \<open>ValueError v\<close> is the error an enumeration raises when it is
  called with the string \<open>v\<close> that is none of its values; \<open>HTTPException status detail\<close>
  is FastAPI's exception.
\<close>

datatype py_error = ValueError string | HTTPException nat string

datatype PersonalityType =
  ADVENTUROUS | LUXURY | BUDGET | CULTURAL | RELAXED | FAMILY | BUSINESS | FOODIE
  | PHOTOGRAPHER | WELLNESS | BACKPACKER | ROMANTIC

datatype CommunicationStyle =
  FORMAL | CASUAL | ENTHUSIASTIC | PROFESSIONAL | FRIENDLY | HUMOROUS | DETAILED | CONCISE

text \<open>The \<^verbatim>\<open>.value\<close> of an enumeration member.\<close>

fun PersonalityType_value :: "PersonalityType \<Rightarrow> string" where
  "PersonalityType_value ADVENTUROUS = ''adventurous''"
| "PersonalityType_value LUXURY = ''luxury''"
| "PersonalityType_value BUDGET = ''budget''"
| "PersonalityType_value CULTURAL = ''cultural''"
| "PersonalityType_value RELAXED = ''relaxed''"
| "PersonalityType_value FAMILY = ''family''"
| "PersonalityType_value BUSINESS = ''business''"
| "PersonalityType_value FOODIE = ''foodie''"
| "PersonalityType_value PHOTOGRAPHER = ''photographer''"
| "PersonalityType_value WELLNESS = ''wellness''"
| "PersonalityType_value BACKPACKER = ''backpacker''"
| "PersonalityType_value ROMANTIC = ''romantic''"

fun CommunicationStyle_value :: "CommunicationStyle \<Rightarrow> string" where
  "CommunicationStyle_value FORMAL = ''formal''"
| "CommunicationStyle_value CASUAL = ''casual''"
| "CommunicationStyle_value ENTHUSIASTIC = ''enthusiastic''"
| "CommunicationStyle_value PROFESSIONAL = ''professional''"
| "CommunicationStyle_value FRIENDLY = ''friendly''"
| "CommunicationStyle_value HUMOROUS = ''humorous''"
| "CommunicationStyle_value DETAILED = ''detailed''"
| "CommunicationStyle_value CONCISE = ''concise''"

definition PersonalityType_members :: "PersonalityType list" where
  "PersonalityType_members =
     [ADVENTUROUS, LUXURY, BUDGET, CULTURAL, RELAXED, FAMILY, BUSINESS, FOODIE, PHOTOGRAPHER,
      WELLNESS, BACKPACKER, ROMANTIC]"

definition CommunicationStyle_members :: "CommunicationStyle list" where
  "CommunicationStyle_members =
     [FORMAL, CASUAL, ENTHUSIASTIC, PROFESSIONAL, FRIENDLY, HUMOROUS, DETAILED, CONCISE]"

text \<open>
  The constructor call \<^verbatim>\<open>PersonalityType(v)\<close> (lookup by value): the member whose
  value is \<open>v\<close>, or ValueError.
\<close>

definition make_PersonalityType :: "string \<Rightarrow> py_error + PersonalityType" where
  "make_PersonalityType v =
     (case find (\<lambda>m. PersonalityType_value m = v) PersonalityType_members of
        Some m \<Rightarrow> Inr m
      | None \<Rightarrow> Inl (ValueError v))"

definition make_CommunicationStyle :: "string \<Rightarrow> py_error + CommunicationStyle" where
  "make_CommunicationStyle v =
     (case find (\<lambda>m. CommunicationStyle_value m = v) CommunicationStyle_members of
        Some m \<Rightarrow> Inr m
      | None \<Rightarrow> Inl (ValueError v))"

text \<open>
  A \<^verbatim>\<open>datetime\<close> is a number of microseconds since a fixed epoch, and
  \<^verbatim>\<open>(a - b).days\<close> is the floor of the difference in days. Every operation that
  reads the clock takes the current time \<open>now\<close> as an argument. A Python float is the
  rational it denotes; the personalization score is computed with the rounded operations
  \<open>fadd\<close> and \<open>fmul\<close>, the averages that the feedback learner stores and the
  fixed confidence values are kept as exact numbers.
\<close>

type_synonym datetime = int

definition timedelta_days :: "datetime \<Rightarrow> datetime \<Rightarrow> int" where
  "timedelta_days a b = (a - b) div 86400000000"

text \<open>
  An entry of \<^verbatim>\<open>conversation_history\<close>. The \<^verbatim>\<open>personalization_used\<close>
  key that the entry of a generated reply carries besides is not modelled: nothing reads it.
\<close>

record conversation_entry =
  ce_timestamp :: datetime
  ce_message :: string
  ce_type :: string

text \<open>
  The \<^verbatim>\<open>feedback_data\<close> dictionary of a feedback request, by the keys the code
  reads; \<open>None\<close> is an absent key.
\<close>

record feedback_data =
  fd_rating :: "rat option"
  fd_liked_suggestions :: "string list option"
  fd_disliked_tone :: "string option"
  fd_thumbs :: "string option"
  fd_feedback_text :: "string option"
  fd_original_suggestion :: "string option"
  fd_corrected_suggestion :: "string option"

record feedback_entry =
  fe_timestamp :: datetime
  fe_type :: string
  fe_data :: feedback_data
  fe_response_id :: "string option"

record successful_pattern =
  sp_timestamp :: datetime
  sp_personality_type :: string
  sp_communication_style :: string
  sp_interests :: "string list"
  sp_feedback :: feedback_data

record unsuccessful_pattern =
  up_timestamp :: datetime
  up_personality_type :: string
  up_communication_style :: string
  up_feedback :: feedback_data

record correction_insight =
  ci_timestamp :: datetime
  ci_original :: string
  ci_corrected :: string
  ci_learned_preference :: string

record satisfaction_trend =
  st_average :: rat
  st_improving :: bool
  st_total_feedback_count :: nat

record milestone =
  ms_feedback_count :: nat
  ms_reached_at :: datetime
  ms_personalization_score :: rat

text \<open>
  The \<^verbatim>\<open>learning_insights\<close> dictionary, by the keys the code writes; \<open>None\<close>
  is an absent key.
\<close>

record learning_insights_dict =
  li_successful_patterns :: "successful_pattern list option"
  li_unsuccessful_patterns :: "unsuccessful_pattern list option"
  li_corrections :: "correction_insight list option"
  li_satisfaction_trend :: "satisfaction_trend option"
  li_milestone :: "milestone option"
  li_budget_adjusted :: "string option"
  li_removed_interest :: "string option"

definition empty_learning_insights :: learning_insights_dict where
  "empty_learning_insights =
     \<lparr>li_successful_patterns = None, li_unsuccessful_patterns = None, li_corrections = None,
      li_satisfaction_trend = None, li_milestone = None, li_budget_adjusted = None,
      li_removed_interest = None\<rparr>"

record UserProfile =
  user_id :: string
  name :: "string option"
  age_group :: "string option"
  personality_type :: PersonalityType
  communication_style :: CommunicationStyle
  budget_range :: "string option"
  interests :: "string list"
  travel_history :: "(string \<times> string) list list"
  preferences :: "(string \<times> string) list"
  conversation_history :: "conversation_entry list"
  last_interaction :: "datetime option"
  preferred_language :: string
  voice_enabled :: bool
  accessibility_needs :: "string list"
  feedback_history :: "feedback_entry list"
  satisfaction_scores :: "rat list"
  learning_insights :: learning_insights_dict

text \<open>
  The \<^verbatim>\<open>updates\<close> dictionary that the profile endpoint builds from a
  \<^verbatim>\<open>UserProfileUpdate\<close> request: the request's fields in their declaration
  order, those that are \<^verbatim>\<open>None\<close> left out (\<open>None\<close> below is an absent key).
\<close>

record profile_updates =
  u_name :: "string option"
  u_age_group :: "string option"
  u_personality_type :: "string option"
  u_communication_style :: "string option"
  u_budget_range :: "string option"
  u_interests :: "string list option"
  u_preferred_language :: "string option"
  u_voice_enabled :: "bool option"

definition no_updates :: profile_updates where
  "no_updates =
     \<lparr>u_name = None, u_age_group = None, u_personality_type = None,
      u_communication_style = None, u_budget_range = None, u_interests = None,
      u_preferred_language = None, u_voice_enabled = None\<rparr>"

text \<open>
  The profile store \<^verbatim>\<open>self.user_profiles\<close>. The files the code writes after a
  change (\<^verbatim>\<open>_save_user_profile\<close>, \<^verbatim>\<open>_save_user_profiles\<close>, each inside
  its own \<^verbatim>\<open>try/except\<close>) are not part of the model.
\<close>

type_synonym store = "string \<rightharpoonup> UserProfile"

text \<open>Truth value of an optional string: \<^verbatim>\<open>None\<close> and the empty string are false.\<close>

fun truthy :: "string option \<Rightarrow> bool" where
  "truthy None = False"
| "truthy (Some s) = (s \<noteq> [])"

text \<open>\<^verbatim>\<open>v or d\<close> for an optional string \<open>v\<close>.\<close>

fun or_str :: "string option \<Rightarrow> string \<Rightarrow> string" where
  "or_str None d = d"
| "or_str (Some s) d = (if s = [] then d else s)"

text \<open>\<^verbatim>\<open>xs[-n:]\<close> for a positive \<open>n\<close>: the last \<open>n\<close> elements.\<close>

definition last_n :: "nat \<Rightarrow> 'a list \<Rightarrow> 'a list" where
  "last_n n xs = drop (length xs - n) xs"

section \<open>Profile store\<close>

definition or_default :: "'a option \<Rightarrow> 'a \<Rightarrow> 'a" where
  "or_default v d = (case v of Some x \<Rightarrow> x | None \<Rightarrow> d)"

text \<open>
  \<^verbatim>\<open>get_or_create_user_profile\<close>. A missing profile is built from
  \<^verbatim>\<open>initial_data\<close>; the two enumeration constructors are called on the strings
  supplied (or on the defaults) and raise ValueError before anything is stored.
\<close>

definition get_or_create_user_profile ::
  "store \<Rightarrow> string \<Rightarrow> profile_updates option \<Rightarrow> py_error + (UserProfile \<times> store)" where
  "get_or_create_user_profile user_profiles uid initial_data =
     (case user_profiles uid of
        Some profile \<Rightarrow> Inr (profile, user_profiles)
      | None \<Rightarrow>
          (let profile_data = or_default initial_data no_updates in
           case make_PersonalityType (or_default (u_personality_type profile_data) ''adventurous'') of
             Inl e \<Rightarrow> Inl e
           | Inr pt \<Rightarrow>
               (case make_CommunicationStyle
                       (or_default (u_communication_style profile_data) ''friendly'') of
                  Inl e \<Rightarrow> Inl e
                | Inr cs \<Rightarrow>
                    (let profile =
                       \<lparr>user_id = uid,
                        name = u_name profile_data,
                        age_group = u_age_group profile_data,
                        personality_type = pt,
                        communication_style = cs,
                        budget_range = u_budget_range profile_data,
                        interests = or_default (u_interests profile_data) [],
                        travel_history = [],
                        preferences = [],
                        conversation_history = [],
                        last_interaction = None,
                        preferred_language = or_default (u_preferred_language profile_data) ''en'',
                        voice_enabled = or_default (u_voice_enabled profile_data) False,
                        accessibility_needs = [],
                        feedback_history = [],
                        satisfaction_scores = [],
                        learning_insights = empty_learning_insights\<rparr>
                     in Inr (profile, user_profiles(uid \<mapsto> profile))))))"

text \<open>
  The loop of \<^verbatim>\<open>update_user_profile\<close> over the items of \<^verbatim>\<open>updates\<close>, one
  function for each key. \<^verbatim>\<open>list(set(xs))\<close> lists the distinct elements of \<open>xs\<close>
  in the iteration order of a Python set, which the language leaves open: the order is the
  parameter \<open>set_order\<close>, of which the theorems assume only that \<open>set_order xs\<close> has
  the elements of \<open>xs\<close> and no element twice.
\<close>

definition update_personality_type :: "string \<Rightarrow> UserProfile \<Rightarrow> UserProfile" where
  "update_personality_type v profile =
     (case make_PersonalityType v of
        Inr pt \<Rightarrow> profile\<lparr>personality_type := pt\<rparr>
      | Inl e \<Rightarrow> profile)"

definition update_communication_style :: "string \<Rightarrow> UserProfile \<Rightarrow> UserProfile" where
  "update_communication_style v profile =
     (case make_CommunicationStyle v of
        Inr cs \<Rightarrow> profile\<lparr>communication_style := cs\<rparr>
      | Inl e \<Rightarrow> profile)"

definition update_interests ::
  "(string list \<Rightarrow> string list) \<Rightarrow> string list \<Rightarrow> UserProfile \<Rightarrow> UserProfile" where
  "update_interests set_order v profile = profile\<lparr>interests := set_order (interests profile @ v)\<rparr>"

definition when_present :: "'a option \<Rightarrow> ('a \<Rightarrow> 'b \<Rightarrow> 'b) \<Rightarrow> 'b \<Rightarrow> 'b" where
  "when_present v f x = (case v of Some a \<Rightarrow> f a x | None \<Rightarrow> x)"

definition apply_updates ::
  "(string list \<Rightarrow> string list) \<Rightarrow> profile_updates \<Rightarrow> UserProfile \<Rightarrow> UserProfile" where
  "apply_updates set_order updates profile =
     (let p1 = when_present (u_name updates) (\<lambda>v p. p\<lparr>name := Some v\<rparr>) profile;
          p2 = when_present (u_age_group updates) (\<lambda>v p. p\<lparr>age_group := Some v\<rparr>) p1;
          p3 = when_present (u_personality_type updates) update_personality_type p2;
          p4 = when_present (u_communication_style updates) update_communication_style p3;
          p5 = when_present (u_budget_range updates) (\<lambda>v p. p\<lparr>budget_range := Some v\<rparr>) p4;
          p6 = when_present (u_interests updates) (update_interests set_order) p5;
          p7 = when_present (u_preferred_language updates)
                 (\<lambda>v p. p\<lparr>preferred_language := v\<rparr>) p6
      in when_present (u_voice_enabled updates) (\<lambda>v p. p\<lparr>voice_enabled := v\<rparr>) p7)"

definition update_user_profile ::
  "(string list \<Rightarrow> string list) \<Rightarrow> store \<Rightarrow> string \<Rightarrow> profile_updates
     \<Rightarrow> (py_error + UserProfile) \<times> store" where
  "update_user_profile set_order user_profiles uid updates =
     (case user_profiles uid of
        None \<Rightarrow>
          (case get_or_create_user_profile user_profiles uid (Some updates) of
             Inl e \<Rightarrow> (Inl e, user_profiles)
           | Inr (profile, user_profiles') \<Rightarrow> (Inr profile, user_profiles'))
      | Some profile \<Rightarrow>
          (let profile' = apply_updates set_order updates profile
           in (Inr profile', user_profiles(uid \<mapsto> profile'))))"

section \<open>Message analysis\<close>

record analysis =
  updated_interests :: "string list"
  budget_preference :: "string option"
  an_communication_style :: string

definition interest_keywords :: "(string \<times> string list) list" where
  "interest_keywords =
     [(''adventure'', [''adventure'', ''hiking'', ''trekking'', ''extreme'', ''thrill'',
         ''adrenaline'', ''climbing'', ''rafting'']),
      (''luxury'', [''luxury'', ''5-star'', ''premium'', ''spa'', ''resort'', ''fine dining'',
         ''exclusive'', ''VIP'']),
      (''culture'', [''culture'', ''history'', ''museum'', ''heritage'', ''traditional'', ''art'',
         ''architecture'', ''monument'']),
      (''food'', [''food'', ''cuisine'', ''restaurant'', ''local food'', ''street food'',
         ''cooking'', ''taste'', ''flavor'']),
      (''nightlife'', [''nightlife'', ''party'', ''club'', ''bar'', ''entertainment'', ''dance'',
         ''music'', ''drinks'']),
      (''nature'', [''nature'', ''wildlife'', ''safari'', ''beach'', ''mountain'', ''forest'',
         ''lake'', ''river'']),
      (''photography'', [''photography'', ''photos'', ''instagram'', ''scenic'', ''camera'',
         ''shoot'', ''capture'', ''golden hour'']),
      (''family'', [''family'', ''kids'', ''children'', ''family-friendly'', ''playground'',
         ''educational'', ''safe'']),
      (''wellness'', [''wellness'', ''yoga'', ''meditation'', ''spa'', ''massage'', ''detox'',
         ''health'', ''fitness'']),
      (''backpacking'', [''backpack'', ''hostel'', ''budget travel'', ''local'', ''authentic'',
         ''independence'', ''solo'']),
      (''romance'', [''romantic'', ''couple'', ''honeymoon'', ''sunset'', ''intimate'', ''cozy'',
         ''together'', ''love'']),
      (''business'', [''business'', ''conference'', ''meeting'', ''networking'', ''work'',
         ''corporate'', ''professional''])]"

text \<open>\<^verbatim>\<open>if x not in xs: xs.append(x)\<close>\<close>

definition append_if_absent :: "'a \<Rightarrow> 'a list \<Rightarrow> 'a list" where
  "append_if_absent x xs = (if x \<in> set xs then xs else xs @ [x])"

text \<open>The loop over \<^verbatim>\<open>interest_keywords.items()\<close>.\<close>

fun detect_interests :: "(string \<times> string list) list \<Rightarrow> string \<Rightarrow> string list \<Rightarrow> string list" where
  "detect_interests [] message_lower ints = ints"
| "detect_interests ((interest, keywords) # rest) message_lower ints =
     detect_interests rest message_lower
       (if any_in keywords message_lower then append_if_absent interest ints else ints)"

definition detect_budget :: "string \<Rightarrow> string option \<Rightarrow> string option" where
  "detect_budget message_lower budget =
     (if any_in [''budget'', ''cheap'', ''affordable'', ''low cost''] message_lower
      then Some ''budget''
      else if any_in [''luxury'', ''premium'', ''expensive'', ''high-end''] message_lower
      then Some ''luxury''
      else if any_in [''mid-range'', ''moderate'', ''reasonable''] message_lower
      then Some ''mid-range''
      else budget)"

definition detect_communication_style :: "string \<Rightarrow> CommunicationStyle \<Rightarrow> CommunicationStyle" where
  "detect_communication_style message_lower style =
     (if any_in [''please'', ''kindly'', ''would you'', ''could you''] message_lower then FORMAL
      else if any_in [''awesome'', ''cool'', ''amazing'', ''wow''] message_lower then ENTHUSIASTIC
      else style)"

text \<open>
  The first statements of \<^verbatim>\<open>analyze_user_intent_and_personality\<close>: the inbound
  message is appended to the history, which is then cut to its last 20 entries.
\<close>

definition record_user_message :: "datetime \<Rightarrow> string \<Rightarrow> UserProfile \<Rightarrow> UserProfile" where
  "record_user_message now message user_profile =
     (let history = conversation_history user_profile
                      @ [\<lparr>ce_timestamp = now, ce_message = message, ce_type = ''user''\<rparr>]
      in user_profile\<lparr>conversation_history :=
           (if length history > 20 then last_n 20 history else history)\<rparr>)"

definition analyze_user_intent_and_personality ::
  "datetime \<Rightarrow> string \<Rightarrow> UserProfile \<Rightarrow> analysis \<times> UserProfile" where
  "analyze_user_intent_and_personality now message user_profile =
     (let p1 = record_user_message now message user_profile;
          message_lower = lower message;
          p2 = p1\<lparr>interests := detect_interests interest_keywords message_lower (interests p1)\<rparr>;
          p3 = p2\<lparr>budget_range := detect_budget message_lower (budget_range p2)\<rparr>;
          p4 = p3\<lparr>communication_style :=
                  detect_communication_style message_lower (communication_style p3)\<rparr>
      in (\<lparr>updated_interests = interests p4,
           budget_preference = budget_range p4,
           an_communication_style = CommunicationStyle_value (communication_style p4)\<rparr>,
          p4))"

section \<open>Destination knowledge base\<close>

record DestinationRecord =
  best_time :: string
  weather_now :: string
  signature_experiences :: "string list"
  hidden_gems :: "string list"
  personality_matches :: "(string \<times> string list) list"
  local_tips :: "string list"

definition goa_record :: DestinationRecord where
  "goa_record =
     \<lparr>best_time = ''November to March'',
      weather_now = ''Pleasant and sunny'',
      signature_experiences =
        [''Beach hopping in North Goa'',
         ''Portuguese heritage tour in Old Goa'',
         ''Spice plantation visits'',
         ''Sunset cruises on Mandovi River'',
         ''Night markets in Anjuna''],
      hidden_gems =
        [''Butterfly Beach accessible only by boat'',
         ''Chorla Ghats waterfalls'',
         ''Divar Island bicycle tours'',
         ''Traditional Goan cooking classes''],
      personality_matches =
        [(''adventurous'', [''Parasailing at Calangute'', ''Scuba diving at Grande Island'']),
         (''luxury'', [''Park Hyatt Goa Resort'', ''Taj Exotica Goa'']),
         (''cultural'', [''Basilica of Bom Jesus'', ''Goa State Museum'']),
         (''foodie'', [''Beach shacks for seafood'', ''Feni tasting tours'']),
         (''romantic'', [''Sunset at Chapora Fort'', ''Candlelight dinner on beach''])],
      local_tips =
        [''Rent a scooter for easy transportation'',
         ''Try Goan fish curry and rice'',
         ''Bargain at local markets'',
         ''Respect local customs at religious sites'']\<rparr>"

definition kerala_record :: DestinationRecord where
  "kerala_record =
     \<lparr>best_time = ''October to March'',
      weather_now = ''Cool and comfortable'',
      signature_experiences =
        [''Houseboat cruise in Alleppey backwaters'',
         ''Tea plantation tours in Munnar'',
         ''Ayurveda treatments in Kovalam'',
         ''Kathakali dance performances'',
         ''Wildlife safari in Thekkady''],
      hidden_gems =
        [''Varkala cliff beaches'',
         ''Chinese fishing nets in Fort Kochi'',
         ''Bamboo rafting in Periyar'',
         ''Village stay in Kumarakom''],
      personality_matches =
        [(''wellness'', [''Ayurveda retreats'', ''Yoga centers in Rishikesh'']),
         (''nature'', [''Periyar Wildlife Sanctuary'', ''Silent Valley National Park'']),
         (''luxury'', [''Kumarakom Lake Resort'', ''Taj Malabar Resort'']),
         (''cultural'', [''Jewish Synagogue in Kochi'', ''Mattancherry Palace'']),
         (''romantic'', [''Houseboat honeymoon'', ''Hill station retreats''])],
      local_tips =
        [''Book houseboats in advance'',
         ''Try Kerala sadya (traditional meal)'',
         ''Carry light cotton clothes'',
         ''Learn basic Malayalam phrases'']\<rparr>"

definition chennai_record :: DestinationRecord where
  "chennai_record =
     \<lparr>best_time = ''November to February'',
      weather_now = ''Hot and humid'',
      signature_experiences =
        [''Marina Beach sunrise walks'',
         ''Kapaleeshwarar Temple visits'',
         ''Classical music concerts in December'',
         ''Traditional South Indian breakfast tours'',
         ''Government Museum explorations''],
      hidden_gems =
        [''Crocodile Bank conservation center'',
         ''DakshinaChitra cultural village'',
         ''Pulicat Lake bird sanctuary'',
         ''Mahabalipuram stone carvings day trip''],
      personality_matches =
        [(''cultural'', [''Bharatanatyam performances'', ''Temple architecture tours'']),
         (''foodie'', [''Chettinad cuisine'', ''Filter coffee culture'']),
         (''business'', [''IT corridor networking'', ''Conference venues'']),
         (''family'', [''Birla Planetarium'', ''Guindy National Park'']),
         (''photographer'', [''Marina Beach sunsets'', ''Colonial architecture''])],
      local_tips =
        [''Use Chennai Metro for easy travel'',
         ''Try authentic Tamil meals on banana leaf'',
         ''Respect temple dress codes'',
         ''Learn a few Tamil greetings'']\<rparr>"

definition destination_intelligence :: "(string \<times> DestinationRecord) list" where
  "destination_intelligence =
     [(''goa'', goa_record), (''kerala'', kerala_record), (''chennai'', chennai_record)]"

record destination_intel =
  destination :: string
  intelligence :: "DestinationRecord option"
  has_specific_data :: bool

definition get_destination_intelligence :: "string \<Rightarrow> destination_intel" where
  "get_destination_intelligence message =
     (let message_lower = lower message in
      case find (\<lambda>(dest, intel). sublist dest message_lower) destination_intelligence of
        Some (detected_destination, intel) \<Rightarrow>
          \<lparr>destination = detected_destination, intelligence = Some intel,
           has_specific_data = True\<rparr>
      | None \<Rightarrow>
          \<lparr>destination = ''general'', intelligence = None, has_specific_data = False\<rparr>)"

section \<open>Response synthesizer\<close>

subsection \<open>String helpers\<close>

definition upper_char :: "char \<Rightarrow> char" where
  "upper_char c =
     (case map_of (zip ''abcdefghijklmnopqrstuvwxyz'' ''ABCDEFGHIJKLMNOPQRSTUVWXYZ'') c of
        Some d \<Rightarrow> d
      | None \<Rightarrow> c)"

text \<open>
  \<^verbatim>\<open>str.title()\<close>: a letter that follows a letter is put in lower case, any other
  letter in upper case.
\<close>

fun title_from :: "bool \<Rightarrow> string \<Rightarrow> string" where
  "title_from after_letter [] = []"
| "title_from after_letter (c # cs) =
     (if c \<in> set ''abcdefghijklmnopqrstuvwxyz''
      then (if after_letter then c else upper_char c) # title_from True cs
      else if c \<in> set ''ABCDEFGHIJKLMNOPQRSTUVWXYZ''
      then (if after_letter then lower_char c else c) # title_from True cs
      else c # title_from False cs)"

definition title :: "string \<Rightarrow> string" where
  "title s = title_from False s"

text \<open>\<^verbatim>\<open>sep.join(xs)\<close>\<close>

fun join :: "string \<Rightarrow> string list \<Rightarrow> string" where
  "join sep [] = []"
| "join sep [x] = x"
| "join sep (x # y # ys) = x @ sep @ join sep (y # ys)"

text \<open>\<^verbatim>\<open>str(n)\<close> for a natural number.\<close>

fun str_nat :: "nat \<Rightarrow> string" where
  "str_nat n =
     (if n < 10 then [''0123456789'' ! n]
      else str_nat (n div 10) @ [''0123456789'' ! (n mod 10)])"

text \<open>
  The pictographs and the bullet, rupee and other signs of the message texts, as the bytes
  that the source file holds for them.
\<close>

definition mark_sparkles :: string where
  "mark_sparkles = [CHR 0xC3, CHR 0xA2, CHR 0xC5, CHR 0x93, CHR 0xC2, CHR 0xA8]"

definition mark_clipboard :: string where
  "mark_clipboard =
     [CHR 0xC3, CHR 0xB0, CHR 0xC5, CHR 0xB8, CHR 0xE2, CHR 0x80,
      CHR 0x9C, CHR 0xE2, CHR 0x80, CHR 0xB9]"

definition mark_gem :: string where
  "mark_gem =
     [CHR 0xC3, CHR 0xB0, CHR 0xC5, CHR 0xB8, CHR 0xE2,
      CHR 0x80, CHR 0x99, CHR 0xC5, CHR 0xBD]"

definition mark_mountain :: string where
  "mark_mountain =
     [CHR 0xC3, CHR 0xB0, CHR 0xC5, CHR 0xB8, CHR 0xE2, CHR 0x80,
      CHR 0x9D, CHR 0xC3, CHR 0xAF, CHR 0xC2, CHR 0xB8]"

definition mark_building :: string where
  "mark_building =
     [CHR 0xC3, CHR 0xB0, CHR 0xC5, CHR 0xB8, CHR 0xE2, CHR 0x80,
      CHR 0xBA, CHR 0xC3, CHR 0xAF, CHR 0xC2, CHR 0xB8]"

definition mark_star :: string where
  "mark_star = [CHR 0xC3, CHR 0xB0, CHR 0xC5, CHR 0xB8, CHR 0xC5, CHR 0x92, CHR 0xC5, CHR 0xB8]"

definition mark_target :: string where
  "mark_target = [CHR 0xC3, CHR 0xB0, CHR 0xC5, CHR 0xB8, CHR 0xC5, CHR 0xBD, CHR 0xC2, CHR 0xAF]"

definition mark_bullet :: string where
  "mark_bullet = [CHR 0xC3, CHR 0xA2, CHR 0xE2, CHR 0x82, CHR 0xAC, CHR 0xC2, CHR 0xA2]"

definition mark_bulb :: string where
  "mark_bulb =
     [CHR 0xC3, CHR 0xB0, CHR 0xC5, CHR 0xB8, CHR 0xE2,
      CHR 0x80, CHR 0x99, CHR 0xC2, CHR 0xA1]"

definition mark_calendar :: string where
  "mark_calendar =
     [CHR 0xC3, CHR 0xB0, CHR 0xC5, CHR 0xB8, CHR 0xE2, CHR 0x80,
      CHR 0x9C, CHR 0xE2, CHR 0x80, CHR 0xA6]"

definition mark_dizzy :: string where
  "mark_dizzy =
     [CHR 0xC3, CHR 0xB0, CHR 0xC5, CHR 0xB8, CHR 0xE2,
      CHR 0x80, CHR 0x99, CHR 0xC2, CHR 0xAB]"

definition mark_arrows :: string where
  "mark_arrows =
     [CHR 0xC3, CHR 0xB0, CHR 0xC5, CHR 0xB8, CHR 0xE2, CHR 0x80,
      CHR 0x9D, CHR 0xE2, CHR 0x80, CHR 0x9E]"

definition mark_speech :: string where
  "mark_speech =
     [CHR 0xC3, CHR 0xB0, CHR 0xC5, CHR 0xB8, CHR 0xE2,
      CHR 0x80, CHR 0x99, CHR 0xC2, CHR 0xAC]"

definition mark_rupee :: string where
  "mark_rupee = [CHR 0xC3, CHR 0xA2, CHR 0xE2, CHR 0x80, CHR 0x9A, CHR 0xC2, CHR 0xB9]"

subsection \<open>Persona and fallback text\<close>

definition select_travel_agent_persona :: "UserProfile \<Rightarrow> string \<Rightarrow> string" where
  "select_travel_agent_persona user_profile message_lower =
     (if any_in [''inspire'', ''suggest'', ''idea'', ''where'', ''destination''] message_lower
      then ''inspiration''
      else if any_in [''plan'', ''itinerary'', ''schedule'', ''organize''] message_lower
      then ''planning''
      else if any_in [''luxury'', ''premium'', ''5-star'', ''exclusive''] message_lower
      then ''luxury''
      else if any_in [''adventure'', ''thrill'', ''extreme'', ''outdoor''] message_lower
      then ''adventure''
      else if any_in [''culture'', ''history'', ''heritage'', ''traditional''] message_lower
      then ''cultural''
      else if personality_type user_profile = LUXURY then ''luxury''
      else if personality_type user_profile = ADVENTUROUS then ''adventure''
      else if personality_type user_profile = CULTURAL then ''cultural''
      else ''general'')"

definition persona_opening :: "string \<Rightarrow> string \<Rightarrow> string \<Rightarrow> string" where
  "persona_opening agent_persona nm dest =
     (if agent_persona = ''inspiration''
      then mark_sparkles @ '' **Travel Inspiration Agent here!** '' @ mark_sparkles
           @ ''\<newline>\<newline>Hey '' @ nm
           @ ''! I'm absolutely excited to help you discover the magic of '' @ dest @ ''! ''
      else if agent_persona = ''planning''
      then mark_clipboard @ '' **Travel Planning Agent at your service!** '' @ mark_clipboard
           @ ''\<newline>\<newline>Hi '' @ nm @ ''! Let's turn your '' @ dest
           @ '' dreams into a concrete plan! ''
      else if agent_persona = ''luxury''
      then mark_gem @ '' **Luxury Travel Specialist here!** '' @ mark_gem
           @ ''\<newline>\<newline>Welcome '' @ nm @ ''! I specialize in creating extraordinary ''
           @ dest @ '' experiences that exceed expectations. ''
      else if agent_persona = ''adventure''
      then mark_mountain @ '' **Adventure Travel Expert ready!** '' @ mark_mountain
           @ ''\<newline>\<newline>Hey there '' @ nm @ ''! Ready for some epic '' @ dest
           @ '' adventures? ''
      else if agent_persona = ''cultural''
      then mark_building @ '' **Cultural Experience Curator here!** '' @ mark_building
           @ ''\<newline>\<newline>Greetings '' @ nm
           @ ''! Let me unveil the rich cultural tapestry of '' @ dest @ '' for you. ''
      else mark_star @ '' **Your Personal Travel Concierge!** '' @ mark_star
           @ ''\<newline>\<newline>Hello '' @ nm @ ''! I'm here to craft the perfect '' @ dest
           @ '' experience just for you! '')"

text \<open>\<^verbatim>\<open>for i, exp in enumerate(top_experiences, 1)\<close>, one line for each.\<close>

fun numbered_lines :: "nat \<Rightarrow> string list \<Rightarrow> string" where
  "numbered_lines i [] = []"
| "numbered_lines i (experience # rest) =
     ''   '' @ str_nat i @ ''. '' @ experience @ ''\<newline>'' @ numbered_lines (Suc i) rest"

fun bullet_lines :: "string list \<Rightarrow> string" where
  "bullet_lines [] = []"
| "bullet_lines (x # xs) = ''   '' @ mark_bullet @ '' '' @ x @ ''\<newline>'' @ bullet_lines xs"

text \<open>The block \<^verbatim>\<open>if has_intel:\<close> of the fallback text.\<close>

definition intel_text :: "DestinationRecord \<Rightarrow> string \<Rightarrow> UserProfile \<Rightarrow> string" where
  "intel_text intel dest user_profile =
     (let personality_matches' =
            or_default (map_of (personality_matches intel)
                          (PersonalityType_value (personality_type user_profile))) []
      in (if signature_experiences intel \<noteq> []
          then ''\<newline>\<newline>'' @ mark_star @ '' **Must-Experience in '' @ dest
               @ '':**\<newline>'' @ numbered_lines 1 (take 3 (signature_experiences intel))
          else [])
         @ (if personality_matches' \<noteq> []
            then ''\<newline>'' @ mark_target @ '' **Perfect for your ''
                 @ PersonalityType_value (personality_type user_profile)
                 @ '' personality:**\<newline>'' @ bullet_lines (take 2 personality_matches')
            else [])
         @ (if local_tips intel \<noteq> []
            then ''\<newline>'' @ mark_bulb @ '' **Insider Tips:**\<newline>''
                 @ bullet_lines (take 2 (local_tips intel))
            else [])
         @ (if best_time intel \<noteq> []
            then ''\<newline>'' @ mark_calendar @ '' **Best Time to Visit:** '' @ best_time intel
                 @ ''\<newline>''
            else []))"

definition generate_fallback_response :: "string \<Rightarrow> UserProfile \<Rightarrow> string" where
  "generate_fallback_response message user_profile =
     (let message_lower = lower message;
          nm = or_str (name user_profile) ''valued traveler'';
          dest_intel = get_destination_intelligence message;
          dest = title (destination dest_intel);
          has_intel = has_specific_data dest_intel;
          agent_persona = select_travel_agent_persona user_profile message_lower
      in persona_opening agent_persona nm dest
         @ (case intelligence dest_intel of
              Some intel \<Rightarrow> (if has_intel then intel_text intel dest user_profile else [])
            | None \<Rightarrow> [])
         @ ''\<newline>'' @ mark_dizzy @ '' **Why I'm perfect for you:**\<newline>''
         @ ''   '' @ mark_bullet @ '' I remember you're a ''
         @ PersonalityType_value (personality_type user_profile) @ '' traveler\<newline>''
         @ ''   '' @ mark_bullet @ '' Your ''
         @ CommunicationStyle_value (communication_style user_profile)
         @ '' communication style guides my responses\<newline>''
         @ (if truthy (budget_range user_profile)
            then ''   '' @ mark_bullet @ '' I focus on '' @ or_str (budget_range user_profile) []
                 @ '' options that match your preferences\<newline>''
            else [])
         @ (if interests user_profile \<noteq> []
            then ''   '' @ mark_bullet @ '' I know you love: ''
                 @ join '', '' (take 3 (interests user_profile)) @ ''\<newline>''
            else [])
         @ ''\<newline>'' @ mark_arrows
         @ '' **Let's continue planning!** I'm learning about your preferences with every conversation. ''
         @ ''The more we chat, the better I become at creating your perfect '' @ dest
         @ '' experience!''
         @ ''\<newline>\<newline>'' @ mark_speech @ '' **What would you like to know next?**\<newline>''
         @ ''   '' @ mark_bullet @ '' Detailed itinerary planning\<newline>''
         @ ''   '' @ mark_bullet @ '' Specific accommodation recommendations\<newline>''
         @ ''   '' @ mark_bullet @ '' Local dining and entertainment\<newline>''
         @ ''   '' @ mark_bullet @ '' Transportation and logistics\<newline>'')"

subsection \<open>Suggestions and booking options\<close>

definition generate_personalized_suggestions :: "UserProfile \<Rightarrow> string \<Rightarrow> string list" where
  "generate_personalized_suggestions user_profile message =
     (let s1 = (if personality_type user_profile = ADVENTUROUS
                then [''Show me adventure activities in this destination'',
                      ''Find unique off-the-beaten-path experiences'',
                      ''What are the most thrilling things to do here?'']
                else if personality_type user_profile = LUXURY
                then [''Show premium resort options'',
                      ''Find exclusive experiences and VIP services'',
                      ''What are the most luxurious restaurants here?'']
                else if personality_type user_profile = CULTURAL
                then [''Explore local culture and traditions'',
                      ''Find historical sites and museums'',
                      ''What authentic local experiences are available?'']
                else []);
          s2 = s1 @ (if ''food'' \<in> set (interests user_profile)
                     then [''Discover the best local cuisine and food tours''] else []);
          s3 = s2 @ (if ''photography'' \<in> set (interests user_profile)
                     then [''Find the most Instagram-worthy spots''] else []);
          s4 = s3 @ (if ''nature'' \<in> set (interests user_profile)
                     then [''Explore natural attractions and wildlife''] else []);
          message_lower = lower message;
          s5 = s4 @ (if sublist ''days'' message_lower
                     then [''Create a detailed day-by-day itinerary''] else []);
          s6 = s5 @ (if any_in [''january'', ''february'', ''march'', ''april'', ''may'', ''june'']
                          message_lower
                     then [''Check weather and seasonal highlights''] else [])
      in take 7 s6)"

record booking =
  bk_type :: string
  bk_option :: string
  bk_price :: string
  bk_details :: string
  bk_availability :: string
  bk_personalization :: string

definition generate_personalized_bookings :: "UserProfile \<Rightarrow> string \<Rightarrow> booking list" where
  "generate_personalized_bookings user_profile message =
     (let b1 =
        (if budget_range user_profile = Some ''luxury''
         then [\<lparr>bk_type = ''flight'',
                bk_option = ''Business Class - Air India'',
                bk_price = mark_rupee @ ''25,000'',
                bk_details = ''Premium service with lounge access'',
                bk_availability = ''Available - Limited seats'',
                bk_personalization = ''Selected for your luxury preferences''\<rparr>,
               \<lparr>bk_type = ''hotel'',
                bk_option = ''5-Star Resort & Spa'',
                bk_price = mark_rupee @ ''18,000/night'',
                bk_details = ''Premium oceanview suite with spa access'',
                bk_availability = ''Available - Book now for best rates'',
                bk_personalization = ''Matches your luxury travel style''\<rparr>]
         else if budget_range user_profile = Some ''budget''
         then [\<lparr>bk_type = ''flight'',
                bk_option = ''IndiGo - Economy'',
                bk_price = mark_rupee @ ''6,500'',
                bk_details = ''Direct flight with good timing'',
                bk_availability = ''Great deal - Limited time'',
                bk_personalization = ''Best value for your budget''\<rparr>,
               \<lparr>bk_type = ''hotel'',
                bk_option = ''Boutique Guesthouse'',
                bk_price = mark_rupee @ ''3,500/night'',
                bk_details = ''Clean, comfortable with local charm'',
                bk_availability = ''Available - Highly rated'',
                bk_personalization = ''Perfect budget option with character''\<rparr>]
         else [\<lparr>bk_type = ''flight'',
                bk_option = ''Vistara - Premium Economy'',
                bk_price = mark_rupee @ ''12,000'',
                bk_details = ''Comfortable flight with good service'',
                bk_availability = ''Available - Good timing'',
                bk_personalization = ''Great balance of comfort and value''\<rparr>,
               \<lparr>bk_type = ''hotel'',
                bk_option = ''4-Star Beach Resort'',
                bk_price = mark_rupee @ ''8,500/night'',
                bk_details = ''Beachfront location with modern amenities'',
                bk_availability = ''Available - Sea view rooms'',
                bk_personalization = ''Ideal for your travel style''\<rparr>]);
          b2 = b1 @
        (if ''adventure'' \<in> set (interests user_profile)
         then [\<lparr>bk_type = ''activity'',
                bk_option = ''Adventure Sports Package'',
                bk_price = mark_rupee @ ''4,500'',
                bk_details = ''Paragliding, water sports, and trekking'',
                bk_availability = ''Available - Adventure guaranteed'',
                bk_personalization = ''Perfect for your adventurous spirit''\<rparr>]
         else if ''culture'' \<in> set (interests user_profile)
         then [\<lparr>bk_type = ''activity'',
                bk_option = ''Cultural Heritage Tour'',
                bk_price = mark_rupee @ ''2,800'',
                bk_details = ''Guided tour of historical sites and local culture'',
                bk_availability = ''Available - Expert local guides'',
                bk_personalization = ''Tailored for culture enthusiasts''\<rparr>]
         else [])
      in take 5 b2)"

subsection \<open>Personalization score\<close>

text \<open>
  \<^verbatim>\<open>calculate_personalization_score\<close>. \<open>accumulated_score\<close> is the variable
  \<^verbatim>\<open>score\<close> when the \<^verbatim>\<open>return\<close> is reached: every
  \<^verbatim>\<open>score += x\<close> is a float addition, every product of a length and a weight a
  float multiplication (the length of a list is far below \<open>2 ^ 53\<close>, so it is a float
  as it is), and the weights are the floats nearest to the decimal literals.
\<close>

definition accumulated_score :: "datetime \<Rightarrow> UserProfile \<Rightarrow> rat" where
  "accumulated_score now user_profile =
     (let s0 = 0;
          s1 = (if truthy (name user_profile) then fadd s0 (double (1 / 10)) else s0);
          s2 = (if truthy (age_group user_profile) then fadd s1 (double (1 / 10)) else s1);
          s3 = (if truthy (budget_range user_profile) then fadd s2 (double (15 / 100)) else s2);
          s4 = fadd s3 (min (fmul (of_nat (length (interests user_profile))) (double (5 / 100)))
                            (double (2 / 10)));
          s5 = fadd s4 (min (fmul (of_nat (length (travel_history user_profile)))
                                  (double (3 / 100)))
                            (double (15 / 100)));
          s6 = fadd s5 (min (fmul (of_nat (length (conversation_history user_profile)))
                                  (double (1 / 100)))
                            (double (2 / 10)))
      in case last_interaction user_profile of
           Some t \<Rightarrow> (if timedelta_days now t < 7 then fadd s6 (double (1 / 10)) else s6)
         | None \<Rightarrow> s6)"

definition calculate_personalization_score :: "datetime \<Rightarrow> UserProfile \<Rightarrow> rat" where
  "calculate_personalization_score now user_profile = min (accumulated_score now user_profile) 1"

subsection \<open>Response generation\<close>

datatype user_insights = Analysis analysis | FallbackMode bool string

record personalized_response =
  response :: string
  agent_used :: string
  confidence :: rat
  suggestions :: "string list"
  booking_options :: "booking list"
  personalization_score :: rat
  user_insights :: user_insights
  voice_response_available :: bool
  session_id :: string

text \<open>
  \<^verbatim>\<open>generate_personalized_response\<close>. The call of the external generative model is
  not part of the model: its outcome is the argument \<open>generated\<close>, \<open>Inr text\<close> when
  the call returns \<open>text\<close> and \<open>Inl e\<close> when it raises an exception whose
  \<^verbatim>\<open>str\<close> is \<open>e\<close>. The prompt, which only that call reads, is not modelled.
  The profile is changed in place before the call, so the store returned holds the
  analysed message also when the call fails.
\<close>

definition generate_personalized_response ::
  "datetime \<Rightarrow> string + string \<Rightarrow> store \<Rightarrow> string \<Rightarrow> string \<Rightarrow> string
     \<Rightarrow> (py_error + personalized_response) \<times> store" where
  "generate_personalized_response now generated user_profiles message uid sid =
     (case get_or_create_user_profile user_profiles uid None of
        Inl e \<Rightarrow> (Inl e, user_profiles)
      | Inr (profile0, user_profiles1) \<Rightarrow>
          (case analyze_user_intent_and_personality now message profile0 of
             (analysis, user_profile) \<Rightarrow>
               (case generated of
                  Inr ai_response \<Rightarrow>
                    (let p1 = user_profile\<lparr>conversation_history :=
                               conversation_history user_profile
                               @ [\<lparr>ce_timestamp = now, ce_message = ai_response,
                                   ce_type = ''ai''\<rparr>]\<rparr>;
                         p2 = p1\<lparr>last_interaction := Some now\<rparr>
                     in (Inr \<lparr>response = ai_response,
                              agent_used = ''Personalized Gemini AI'',
                              confidence = 95 / 100,
                              suggestions = generate_personalized_suggestions p2 message,
                              booking_options = generate_personalized_bookings p2 message,
                              personalization_score = calculate_personalization_score now p2,
                              user_insights = Analysis analysis,
                              voice_response_available = voice_enabled p2,
                              session_id = sid\<rparr>,
                         user_profiles1(uid \<mapsto> p2)))
                | Inl e \<Rightarrow>
                    (if sublist ''429'' e \<or> sublist ''quota'' (lower e)
                     then (Inr \<lparr>response = generate_fallback_response message user_profile,
                                 agent_used = ''Personalized Fallback Agent'',
                                 confidence = 7 / 10,
                                 suggestions =
                                   generate_personalized_suggestions user_profile message,
                                 booking_options =
                                   generate_personalized_bookings user_profile message,
                                 personalization_score =
                                   calculate_personalization_score now user_profile,
                                 user_insights = FallbackMode True ''API quota exceeded'',
                                 voice_response_available = voice_enabled user_profile,
                                 session_id = sid\<rparr>,
                           user_profiles1(uid \<mapsto> user_profile))
                     else (Inl (HTTPException 500 (''AI response generation failed: '' @ e)),
                           user_profiles1(uid \<mapsto> user_profile))))))"

section \<open>Feedback learner\<close>

text \<open>
  One round of the loop of \<^verbatim>\<open>_reinforce_positive_patterns\<close> over the liked
  suggestions: an \<^verbatim>\<open>if/elif/elif\<close> chain, each condition testing both that the
  keyword occurs in the suggestion and that it is not yet an interest.
\<close>

definition reinforce_interest :: "string list \<Rightarrow> string \<Rightarrow> string list" where
  "reinforce_interest ints suggestion =
     (let suggestion_lower = lower suggestion in
      if sublist ''adventure'' suggestion_lower \<and> ''adventure'' \<notin> set ints
      then ints @ [''adventure'']
      else if sublist ''luxury'' suggestion_lower \<and> ''luxury'' \<notin> set ints
      then ints @ [''luxury'']
      else if sublist ''culture'' suggestion_lower \<and> ''culture'' \<notin> set ints
      then ints @ [''culture'']
      else ints)"

definition reinforce_positive_patterns ::
  "datetime \<Rightarrow> UserProfile \<Rightarrow> feedback_data \<Rightarrow> UserProfile" where
  "reinforce_positive_patterns now profile feedback_data =
     (let p1 = (case fd_liked_suggestions feedback_data of
                  Some liked_suggestions \<Rightarrow>
                    profile\<lparr>interests := foldl reinforce_interest (interests profile)
                                            liked_suggestions\<rparr>
                | None \<Rightarrow> profile);
          insights = learning_insights p1;
          entry = \<lparr>sp_timestamp = now,
                   sp_personality_type = PersonalityType_value (personality_type p1),
                   sp_communication_style = CommunicationStyle_value (communication_style p1),
                   sp_interests = interests p1,
                   sp_feedback = feedback_data\<rparr>
      in p1\<lparr>learning_insights := insights\<lparr>li_successful_patterns :=
              Some (or_default (li_successful_patterns insights) [] @ [entry])\<rparr>\<rparr>)"

definition adjust_for_negative_feedback ::
  "datetime \<Rightarrow> UserProfile \<Rightarrow> feedback_data \<Rightarrow> UserProfile" where
  "adjust_for_negative_feedback now profile feedback_data =
     (let p1 = (case fd_disliked_tone feedback_data of
                  Some disliked_tone \<Rightarrow>
                    (if disliked_tone = ''too_casual'' \<and> communication_style profile = CASUAL
                     then profile\<lparr>communication_style := PROFESSIONAL\<rparr>
                     else if disliked_tone = ''too_formal'' \<and> communication_style profile = FORMAL
                     then profile\<lparr>communication_style := FRIENDLY\<rparr>
                     else if disliked_tone = ''too_enthusiastic''
                     then profile\<lparr>communication_style := PROFESSIONAL\<rparr>
                     else profile)
                | None \<Rightarrow> profile);
          insights = learning_insights p1;
          entry = \<lparr>up_timestamp = now,
                   up_personality_type = PersonalityType_value (personality_type p1),
                   up_communication_style = CommunicationStyle_value (communication_style p1),
                   up_feedback = feedback_data\<rparr>
      in p1\<lparr>learning_insights := insights\<lparr>li_unsuccessful_patterns :=
              Some (or_default (li_unsuccessful_patterns insights) [] @ [entry])\<rparr>\<rparr>)"

text \<open>
  The loop \<^verbatim>\<open>for interest in profile.interests.copy()\<close> of
  \<^verbatim>\<open>_process_detailed_feedback\<close>: the state is the interest list and the
  \<^verbatim>\<open>removed_interest\<close> entry of \<^verbatim>\<open>insights\<close>.
\<close>

fun remove_mentioned ::
  "string list \<Rightarrow> string \<Rightarrow> string list \<times> string option \<Rightarrow> string list \<times> string option" where
  "remove_mentioned [] feedback_text st = st"
| "remove_mentioned (interest # rest) feedback_text (ints, removed) =
     remove_mentioned rest feedback_text
       (if sublist interest feedback_text then (remove1 interest ints, Some interest)
        else (ints, removed))"

definition process_detailed_feedback :: "UserProfile \<Rightarrow> feedback_data \<Rightarrow> UserProfile" where
  "process_detailed_feedback profile feedback_data =
     (let feedback_text = lower (or_default (fd_feedback_text feedback_data) []);
          (p1, budget_adjusted) =
            (if any_in [''too expensive'', ''costly'', ''price''] feedback_text
             then (if budget_range profile \<noteq> Some ''budget''
                   then (profile\<lparr>budget_range := Some ''budget''\<rparr>,
                         Some ''Changed to budget-conscious based on feedback'')
                   else (profile, None))
             else if any_in [''luxurious'', ''premium'', ''high-end''] feedback_text
             then (if budget_range profile \<noteq> Some ''luxury''
                   then (profile\<lparr>budget_range := Some ''luxury''\<rparr>,
                         Some ''Changed to luxury based on feedback'')
                   else (profile, None))
             else (profile, None));
          (ints, removed) =
            (if sublist ''boring'' feedback_text \<or> sublist ''not interested'' feedback_text
             then remove_mentioned (interests p1) feedback_text (interests p1, None)
             else (interests p1, None));
          p2 = p1\<lparr>interests := ints\<rparr>;
          insights = learning_insights p2;
          insights1 = (case budget_adjusted of
                         Some v \<Rightarrow> insights\<lparr>li_budget_adjusted := Some v\<rparr>
                       | None \<Rightarrow> insights);
          insights2 = (case removed of
                         Some v \<Rightarrow> insights1\<lparr>li_removed_interest := Some v\<rparr>
                       | None \<Rightarrow> insights1)
      in p2\<lparr>learning_insights := insights2\<rparr>)"

definition extract_preference_from_correction :: "string \<Rightarrow> string \<Rightarrow> string" where
  "extract_preference_from_correction original corrected =
     (let original_lower = lower original; corrected_lower = lower corrected in
      if sublist ''budget'' corrected_lower \<and> sublist ''luxury'' original_lower
      then ''prefers_budget_over_luxury''
      else if sublist ''luxury'' corrected_lower \<and> sublist ''budget'' original_lower
      then ''prefers_luxury_over_budget''
      else if sublist ''adventure'' corrected_lower then ''prefers_adventure_activities''
      else if sublist ''cultural'' corrected_lower then ''prefers_cultural_experiences''
      else ''preference_learned_from_correction'')"

definition process_correction_feedback ::
  "datetime \<Rightarrow> UserProfile \<Rightarrow> feedback_data \<Rightarrow> UserProfile" where
  "process_correction_feedback now profile feedback_data =
     (let original_suggestion = or_default (fd_original_suggestion feedback_data) [];
          corrected_suggestion = or_default (fd_corrected_suggestion feedback_data) [];
          correction_insight =
            \<lparr>ci_timestamp = now, ci_original = original_suggestion,
             ci_corrected = corrected_suggestion,
             ci_learned_preference =
               extract_preference_from_correction original_suggestion corrected_suggestion\<rparr>;
          insights = learning_insights profile
      in profile\<lparr>learning_insights := insights\<lparr>li_corrections :=
              Some (or_default (li_corrections insights) [] @ [correction_insight])\<rparr>\<rparr>)"

definition update_learning_insights :: "datetime \<Rightarrow> UserProfile \<Rightarrow> UserProfile" where
  "update_learning_insights now profile =
     (let p1 =
        (if satisfaction_scores profile \<noteq> []
         then (let recent_scores = last_n 5 (satisfaction_scores profile) in
               profile\<lparr>learning_insights := (learning_insights profile)
                 \<lparr>li_satisfaction_trend :=
                    Some \<lparr>st_average = sum_list recent_scores / of_nat (length recent_scores),
                          st_improving = (length recent_scores \<ge> 2
                                          \<and> last recent_scores > hd recent_scores),
                          st_total_feedback_count = length (satisfaction_scores profile)\<rparr>\<rparr>\<rparr>)
         else profile)
      in if length (feedback_history p1) mod 10 = 0 \<and> length (feedback_history p1) > 0
         then p1\<lparr>learning_insights := (learning_insights p1)
                \<lparr>li_milestone :=
                   Some \<lparr>ms_feedback_count = length (feedback_history p1),
                         ms_reached_at = now,
                         ms_personalization_score = calculate_personalization_score now p1\<rparr>\<rparr>\<rparr>
         else p1)"

record feedback_result =
  success :: bool
  feedback_processed :: bool
  fr_learning_insights :: learning_insights_dict
  average_satisfaction :: rat

text \<open>
  \<^verbatim>\<open>process_user_feedback\<close>. \<open>Inl msg\<close> is the dictionary
  \<^verbatim>\<open>{"error": msg}\<close> that the method returns for an unknown user.
\<close>

definition process_user_feedback ::
  "datetime \<Rightarrow> store \<Rightarrow> string \<Rightarrow> string \<Rightarrow> feedback_data \<Rightarrow> string option
     \<Rightarrow> (string + feedback_result) \<times> store" where
  "process_user_feedback now user_profiles uid feedback_type feedback_data response_id =
     (case user_profiles uid of
        None \<Rightarrow> (Inl ''User not found'', user_profiles)
      | Some profile \<Rightarrow>
          (let feedback_entry =
                 \<lparr>fe_timestamp = now, fe_type = feedback_type, fe_data = feedback_data,
                  fe_response_id = response_id\<rparr>;
               p1 = profile\<lparr>feedback_history := feedback_history profile @ [feedback_entry]\<rparr>;
               p2 =
                 (if feedback_type = ''rating''
                  then (let rating = or_default (fd_rating feedback_data) 3;
                            p = p1\<lparr>satisfaction_scores := satisfaction_scores p1 @ [rating]\<rparr>
                        in if rating \<ge> 4 then reinforce_positive_patterns now p feedback_data
                           else if rating \<le> 2 then adjust_for_negative_feedback now p feedback_data
                           else p)
                  else if feedback_type = ''thumbs''
                  then (let rating = (if fd_thumbs feedback_data = Some ''up'' then 4 else 2)
                        in p1\<lparr>satisfaction_scores := satisfaction_scores p1 @ [rating]\<rparr>)
                  else if feedback_type = ''detailed''
                  then process_detailed_feedback p1 feedback_data
                  else if feedback_type = ''correction''
                  then process_correction_feedback now p1 feedback_data
                  else p1);
               p3 = update_learning_insights now p2
           in (Inr \<lparr>success = True,
                    feedback_processed = True,
                    fr_learning_insights = learning_insights p3,
                    average_satisfaction =
                      (if satisfaction_scores p3 \<noteq> []
                       then sum_list (last_n 10 (satisfaction_scores p3))
                              / of_nat (length (last_n 10 (satisfaction_scores p3)))
                       else 3)\<rparr>,
               user_profiles(uid \<mapsto> p3))))"

section \<open>User statistics\<close>

record user_stats =
  us_user_id :: string
  profile_completeness :: rat
  total_conversations :: nat
  interests_discovered :: nat
  trips_planned :: nat
  us_last_interaction :: "datetime option"
  us_personality_type :: string
  us_communication_style :: string
  us_voice_enabled :: bool

text \<open>
  \<^verbatim>\<open>PersonalizedTravelAI.get_user_stats\<close>, with the store it leaves behind.
  \<open>Inl msg\<close> is the dictionary \<^verbatim>\<open>{"error": msg}\<close>.
\<close>

definition get_user_stats :: "datetime \<Rightarrow> store \<Rightarrow> string \<Rightarrow> (string + user_stats) \<times> store" where
  "get_user_stats now user_profiles uid =
     (case user_profiles uid of
        None \<Rightarrow> (Inl ''User not found'', user_profiles)
      | Some profile \<Rightarrow>
          (Inr \<lparr>us_user_id = uid,
                profile_completeness = calculate_personalization_score now profile,
                total_conversations = length (conversation_history profile),
                interests_discovered = length (interests profile),
                trips_planned = length (travel_history profile),
                us_last_interaction = last_interaction profile,
                us_personality_type = PersonalityType_value (personality_type profile),
                us_communication_style = CommunicationStyle_value (communication_style profile),
                us_voice_enabled = voice_enabled profile\<rparr>,
           user_profiles))"

text \<open>
  The endpoint \<^verbatim>\<open>GET /api/user-stats/{user_id}\<close> of backend/api/main.py. The global
  \<^verbatim>\<open>personalized_ai\<close> is \<open>None\<close> until it is initialised, and
  \<^verbatim>\<open>get_personalized_ai\<close> raises then.
\<close>

definition api_get_user_stats ::
  "datetime \<Rightarrow> store option \<Rightarrow> string \<Rightarrow> (py_error + user_stats) \<times> store option" where
  "api_get_user_stats now personalized_ai uid =
     (case personalized_ai of
        None \<Rightarrow> (Inl (HTTPException 500 ''Personalized AI not initialized''), None)
      | Some user_profiles \<Rightarrow>
          (case get_user_stats now user_profiles uid of
             (Inl err, user_profiles') \<Rightarrow> (Inl (HTTPException 404 err), Some user_profiles')
           | (Inr stats, user_profiles') \<Rightarrow> (Inr stats, Some user_profiles')))"

section \<open>Reference inputs and readings used in the statements\<close>

text \<open>The profile that \<open>get_or_create_user_profile\<close> builds when it is given no data.\<close>

definition default_profile :: "string \<Rightarrow> UserProfile" where
  "default_profile uid =
     \<lparr>user_id = uid, name = None, age_group = None, personality_type = ADVENTUROUS,
      communication_style = FRIENDLY, budget_range = None, interests = [], travel_history = [],
      preferences = [], conversation_history = [], last_interaction = None,
      preferred_language = ''en'', voice_enabled = False, accessibility_needs = [],
      feedback_history = [], satisfaction_scores = [],
      learning_insights = empty_learning_insights\<rparr>"

text \<open>A profile whose conversation history already holds 20 entries.\<close>

definition full_history :: "conversation_entry list" where
  "full_history =
     replicate 20 \<lparr>ce_timestamp = 0, ce_message = ''hello'', ce_type = ''user''\<rparr>"

definition profile_with_full_history :: UserProfile where
  "profile_with_full_history = (default_profile ''u1'')\<lparr>conversation_history := full_history\<rparr>"

text \<open>
  The profile of \<open>uid\<close> as \<open>generate_personalized_response\<close> holds it when it calls
  the generative model: fetched or created, then changed by the analysis of the message.
\<close>

definition analysed_profile :: "datetime \<Rightarrow> store \<Rightarrow> string \<Rightarrow> string \<Rightarrow> UserProfile" where
  "analysed_profile now user_profiles message uid =
     snd (analyze_user_intent_and_personality now message
            (case user_profiles uid of Some p \<Rightarrow> p | None \<Rightarrow> default_profile uid))"

text \<open>A feedback dictionary with none of the keys the code reads.\<close>

definition no_feedback_data :: feedback_data where
  "no_feedback_data =
     \<lparr>fd_rating = None, fd_liked_suggestions = None, fd_disliked_tone = None,
      fd_thumbs = None, fd_feedback_text = None, fd_original_suggestion = None,
      fd_corrected_suggestion = None\<rparr>"

text \<open>
  The last interaction lies fewer than 7 whole days before \<open>now\<close> (a day has
  86400000000 microseconds).
\<close>

definition recently_active :: "datetime \<Rightarrow> UserProfile \<Rightarrow> bool" where
  "recently_active now p =
     (case last_interaction p of Some t \<Rightarrow> now - t < 7 * 86400000000 | None \<Rightarrow> False)"

text \<open>
  The weighted sum of the specification in exact arithmetic, capped at 1. A field counts
  as set when it holds a string that is not empty.
\<close>

definition exact_weighted_sum :: "datetime \<Rightarrow> UserProfile \<Rightarrow> rat" where
  "exact_weighted_sum now p =
     min 1
       ((if truthy (name p) then 1 / 10 else 0)
        + (if truthy (age_group p) then 1 / 10 else 0)
        + (if truthy (budget_range p) then 15 / 100 else 0)
        + min (2 / 10) (of_nat (length (interests p)) * (5 / 100))
        + min (15 / 100) (of_nat (length (travel_history p)) * (3 / 100))
        + min (2 / 10) (of_nat (length (conversation_history p)) * (1 / 100))
        + (if recently_active now p then 1 / 10 else 0))"

text \<open>
  Three profiles: with three interests and nothing else; with every component of the score
  at its cap; and as a first exchange leaves it (two history entries, seen just now).
\<close>

definition profile_with_three_interests :: UserProfile where
  "profile_with_three_interests =
     (default_profile ''u1'')\<lparr>interests := [''food'', ''nature'', ''culture'']\<rparr>"

definition profile_at_all_caps :: UserProfile where
  "profile_at_all_caps =
     (default_profile ''u1'')
       \<lparr>name := Some ''Asha'', age_group := Some ''26-35'', budget_range := Some ''luxury'',
        interests := [''food'', ''nature'', ''culture'', ''luxury''],
        travel_history := replicate 5 [],
        conversation_history :=
          replicate 20 \<lparr>ce_timestamp = 0, ce_message = ''hello'', ce_type = ''user''\<rparr>,
        last_interaction := Some 0\<rparr>"

definition profile_after_first_turn :: UserProfile where
  "profile_after_first_turn =
     (default_profile ''u1'')
       \<lparr>conversation_history :=
          [\<lparr>ce_timestamp = 0, ce_message = ''hello'', ce_type = ''user''\<rparr>,
           \<lparr>ce_timestamp = 0, ce_message = ''Welcome'', ce_type = ''ai''\<rparr>],
        last_interaction := Some 0\<rparr>"



section \<open>Theorems\<close>

subsection \<open>Intent classification\<close>

lemma any_in_Nil_string: "any_in ks [] = ([] \<in> set ks)"
  by (induction ks) (auto simp: any_in_def)

text \<open>
  C1. For every message, \<open>detect_intent\<close> returns the label of the first rule, in the
  fixed priority order multi\_agent, place, planning, booking, poi, trip\_monitor, day\_of,
  whose predicate holds of the lower-cased message, and \<open>inspiration\<close> when none does.
  A message with a place name and a date or duration token is classified multi\_agent,
  never place, and the empty message is classified inspiration.
\<close>

theorem detect_intent_first_matching_rule:
  "detect_intent message = classify_by_rules message
   \<and> (any_in location_words (lower message)
        \<and> (any_in date_words (lower message) \<or> any_in duration_words (lower message))
      \<longrightarrow> detect_intent message = ''multi_agent'' \<and> detect_intent message \<noteq> ''place'')
   \<and> detect_intent [] = ''inspiration''"
proof -
  have rules: "detect_intent message = classify_by_rules message"
    by (simp add: detect_intent_def classify_by_rules_def intent_rules_def Let_def)
  have multi: "any_in location_words (lower message)
        \<and> (any_in date_words (lower message) \<or> any_in duration_words (lower message))
      \<longrightarrow> detect_intent message = ''multi_agent'' \<and> detect_intent message \<noteq> ''place''"
    by (simp add: detect_intent_def Let_def)
  have empty: "detect_intent [] = ''inspiration''"
    by (simp add: detect_intent_def Let_def lower_def any_in_Nil_string location_words_def
        planning_words_def booking_words_def poi_words_def trip_monitor_words_def
        day_of_words_def)
  from rules multi empty show ?thesis by blast
qed

theorem detect_intent_first_matching_rule_witness:
  "any_in location_words (lower ''I want to go to Goa for 10 days starting 26th'')
   \<and> any_in duration_words (lower ''I want to go to Goa for 10 days starting 26th'')
   \<and> detect_intent ''I want to go to Goa for 10 days starting 26th'' = ''multi_agent''
   \<and> classify_by_rules ''I want to go to Goa for 10 days starting 26th'' = ''multi_agent''"
proof -
  have loc: "any_in location_words (lower ''I want to go to Goa for 10 days starting 26th'')"
    by (simp add: any_in_def location_words_def lower_def lower_char_def sublist_code(3))
  have dur: "any_in duration_words (lower ''I want to go to Goa for 10 days starting 26th'')"
    by (simp add: any_in_def duration_words_def lower_def lower_char_def sublist_code(3))
  note inst = detect_intent_first_matching_rule
    [of "''I want to go to Goa for 10 days starting 26th''"]
  from inst loc dur
  have multi: "detect_intent ''I want to go to Goa for 10 days starting 26th'' = ''multi_agent''"
    by blast
  from inst have "classify_by_rules ''I want to go to Goa for 10 days starting 26th''
      = detect_intent ''I want to go to Goa for 10 days starting 26th''"
    by simp
  with loc dur multi show ?thesis by simp
qed

subsection \<open>Profile creation\<close>

lemma make_PersonalityType_default: "make_PersonalityType ''adventurous'' = Inr ADVENTUROUS"
  by (simp add: make_PersonalityType_def PersonalityType_members_def)

lemma make_CommunicationStyle_default: "make_CommunicationStyle ''friendly'' = Inr FRIENDLY"
  by (simp add: make_CommunicationStyle_def CommunicationStyle_members_def)

lemma make_PersonalityType_invalid:
  "make_PersonalityType ''invalid_value'' = Inl (ValueError ''invalid_value'')"
  by (simp add: make_PersonalityType_def PersonalityType_members_def)

lemma get_or_create_existing:
  "user_profiles uid = Some p \<Longrightarrow>
   get_or_create_user_profile user_profiles uid d = Inr (p, user_profiles)"
  by (simp add: get_or_create_user_profile_def)

lemma get_or_create_new_default:
  "user_profiles uid = None \<Longrightarrow>
   get_or_create_user_profile user_profiles uid None
     = Inr (default_profile uid, user_profiles(uid \<mapsto> default_profile uid))"
  by (simp add: get_or_create_user_profile_def or_default_def no_updates_def Let_def
      make_PersonalityType_default make_CommunicationStyle_default default_profile_def)

text \<open>Without initial data the constructors are called on their defaults and cannot raise.\<close>

lemma get_or_create_no_data:
  "get_or_create_user_profile user_profiles uid None
     = Inr (case user_profiles uid of Some p \<Rightarrow> p | None \<Rightarrow> default_profile uid,
            case user_profiles uid of Some p \<Rightarrow> user_profiles
            | None \<Rightarrow> user_profiles(uid \<mapsto> default_profile uid))"
  by (cases "user_profiles uid") (simp_all add: get_or_create_existing get_or_create_new_default)

subsection \<open>Conversation history\<close>

text \<open>
  Where the inbound message is recorded the history is cut to its last 20 entries, the
  oldest going first.
\<close>

lemma record_user_message_evicts_oldest:
  "conversation_history (record_user_message now m p)
     = last_n 20 (conversation_history p
                   @ [\<lparr>ce_timestamp = now, ce_message = m, ce_type = ''user''\<rparr>])"
  by (simp add: record_user_message_def Let_def last_n_def)

lemma length_record_user_message:
  "length (conversation_history (record_user_message now m p))
     = min 20 (Suc (length (conversation_history p)))"
  by (simp add: record_user_message_def Let_def last_n_def)

lemma analyze_conversation_history:
  "conversation_history (snd (analyze_user_intent_and_personality now m p))
     = conversation_history (record_user_message now m p)"
  by (simp add: analyze_user_intent_and_personality_def Let_def)

text \<open>The generated reply is appended after that, and nothing cuts the history again.\<close>

lemma generate_success_history:
  assumes "user_profiles uid = Some p"
  shows "map_option conversation_history
           (snd (generate_personalized_response now (Inr t) user_profiles m uid sid) uid)
         = Some (conversation_history (record_user_message now m p)
                 @ [\<lparr>ce_timestamp = now, ce_message = t, ce_type = ''ai''\<rparr>])"
  using assms analyze_conversation_history [of now m p]
  by (auto simp add: generate_personalized_response_def get_or_create_existing Let_def
      split: prod.splits)

lemma generate_success_history_length:
  assumes "user_profiles uid = Some p"
  shows "map_option (\<lambda>q. length (conversation_history q))
           (snd (generate_personalized_response now (Inr t) user_profiles m uid sid) uid)
         = Some (Suc (min 20 (Suc (length (conversation_history p)))))"
proof -
  from generate_success_history
    [where user_profiles = user_profiles and uid = uid and p = p and now = now and t = t
       and m = m and sid = sid] assms
  have "map_option conversation_history
           (snd (generate_personalized_response now (Inr t) user_profiles m uid sid) uid)
         = Some (conversation_history (record_user_message now m p)
                 @ [\<lparr>ce_timestamp = now, ce_message = t, ce_type = ''ai''\<rparr>])"
    by blast
  then show ?thesis
    by (cases "snd (generate_personalized_response now (Inr t) user_profiles m uid sid) uid")
      (auto simp add: length_record_user_message)
qed

text \<open>
  C2. The history of a profile is capped at 20 entries only when an inbound message is
  recorded. The reply is appended without the cap: for a profile that holds 20 entries, one
  turn with a generated reply leaves 21 entries in the stored profile.
\<close>

theorem reply_append_exceeds_history_cap:
  "length (conversation_history profile_with_full_history) = 20
   \<and> map_option (\<lambda>q. length (conversation_history q))
        (snd (generate_personalized_response 1 (Inr ''Welcome'')
                [''u1'' \<mapsto> profile_with_full_history] ''hi'' ''u1'' ''s1'') ''u1'')
      = Some 21"
proof -
  have len: "length (conversation_history profile_with_full_history) = 20"
    by (simp add: profile_with_full_history_def full_history_def)
  have "[''u1'' \<mapsto> profile_with_full_history] ''u1'' = Some profile_with_full_history"
    by simp
  from generate_success_history_length
    [where user_profiles = "[''u1'' \<mapsto> profile_with_full_history]" and uid = "''u1''"
       and p = profile_with_full_history and now = 1 and t = "''Welcome''" and m = "''hi''"
       and sid = "''s1''"] this
  have "map_option (\<lambda>q. length (conversation_history q))
        (snd (generate_personalized_response 1 (Inr ''Welcome'')
                [''u1'' \<mapsto> profile_with_full_history] ''hi'' ''u1'' ''s1'') ''u1'')
      = Some (Suc (min 20 (Suc (length (conversation_history profile_with_full_history)))))"
    by blast
  with len show ?thesis by simp
qed

subsection \<open>Profile updates\<close>

text \<open>
  For a profile that exists, a value that is no member of the enumeration is dropped: the
  update does what it does without that key, and returns normally.
\<close>

lemma update_existing_drops_invalid_personality_type:
  assumes "user_profiles uid = Some p" and "make_PersonalityType v = Inl e"
  shows "update_user_profile set_order user_profiles uid (updates\<lparr>u_personality_type := Some v\<rparr>)
         = update_user_profile set_order user_profiles uid (updates\<lparr>u_personality_type := None\<rparr>)"
  using assms
  by (simp add: update_user_profile_def apply_updates_def when_present_def
      update_personality_type_def Let_def)

lemma update_existing_drops_invalid_communication_style:
  assumes "user_profiles uid = Some p" and "make_CommunicationStyle v = Inl e"
  shows "update_user_profile set_order user_profiles uid
           (updates\<lparr>u_communication_style := Some v\<rparr>)
         = update_user_profile set_order user_profiles uid
           (updates\<lparr>u_communication_style := None\<rparr>)"
  using assms
  by (simp add: update_user_profile_def apply_updates_def when_present_def
      update_communication_style_def Let_def)

lemma update_existing_returns:
  assumes "user_profiles uid = Some p"
  shows "update_user_profile set_order user_profiles uid updates
         = (Inr (apply_updates set_order updates p),
            user_profiles(uid \<mapsto> apply_updates set_order updates p))"
  using assms by (simp add: update_user_profile_def Let_def)

text \<open>
  C3. The first update for a user identifier that has no profile takes the creation path,
  which calls the enumeration constructor on the supplied string outside any handler. With
  \<open>personality_type = invalid_value\<close> and \<open>name = Bob\<close> on an empty store, the
  ValueError leaves \<open>update_user_profile\<close>, no profile is stored and the name is not
  applied.
\<close>

theorem update_new_user_invalid_enum_raises:
  "update_user_profile set_order Map.empty ''new_user''
      (no_updates\<lparr>u_name := Some ''Bob'', u_personality_type := Some ''invalid_value''\<rparr>)
    = (Inl (ValueError ''invalid_value''), Map.empty)"
  by (simp add: update_user_profile_def get_or_create_user_profile_def no_updates_def
      or_default_def make_PersonalityType_invalid)

subsection \<open>Duplicate-free interests\<close>

lemma distinct_append_if_absent: "distinct xs \<Longrightarrow> distinct (append_if_absent x xs)"
  by (simp add: append_if_absent_def)

lemma distinct_detect_interests:
  "distinct ints \<Longrightarrow> distinct (detect_interests kws message_lower ints)"
  by (induction kws message_lower ints rule: detect_interests.induct)
    (simp_all add: distinct_append_if_absent)

text \<open>Message analysis keeps a duplicate-free interest list duplicate-free.\<close>

lemma analyze_interests_distinct:
  "distinct (interests p) \<Longrightarrow>
   distinct (interests (snd (analyze_user_intent_and_personality now m p)))"
  by (simp add: analyze_user_intent_and_personality_def Let_def record_user_message_def
      distinct_detect_interests)

lemma distinct_reinforce_interest:
  "distinct ints \<Longrightarrow> distinct (reinforce_interest ints s)"
  by (simp add: reinforce_interest_def Let_def)

text \<open>So does the reinforcement after a good rating.\<close>

lemma distinct_foldl_reinforce:
  "distinct ints \<Longrightarrow> distinct (foldl reinforce_interest ints l)"
  by (induction l arbitrary: ints) (simp_all add: distinct_reinforce_interest)

lemma interests_apply_updates:
  "interests (apply_updates set_order updates p)
     = (case u_interests updates of
          Some v \<Rightarrow> set_order (interests p @ v)
        | None \<Rightarrow> interests p)"
  by (simp add: apply_updates_def when_present_def Let_def update_personality_type_def
      update_communication_style_def update_interests_def split: option.splits sum.splits)

text \<open>
  And so does the update of a profile that exists, whatever the list supplied: the merge
  goes through a set.
\<close>

lemma update_existing_interests_distinct:
  assumes "\<And>xs. distinct (set_order xs)"
    and "user_profiles uid = Some p" and "distinct (interests p)"
  shows "distinct (interests (apply_updates set_order updates p))
         \<and> update_user_profile set_order user_profiles uid updates
             = (Inr (apply_updates set_order updates p),
                user_profiles(uid \<mapsto> apply_updates set_order updates p))"
  using assms
  by (simp add: update_existing_returns interests_apply_updates split: option.splits)

text \<open>
  C7. The first update for a user identifier that has no profile stores the supplied
  interest list as it is, without the merge that removes duplicates: with
  \<open>interests = [food, food]\<close> on an empty store the stored profile lists food twice.
\<close>

theorem update_new_user_keeps_duplicate_interests:
  "update_user_profile set_order Map.empty ''new_user''
      (no_updates\<lparr>u_interests := Some [''food'', ''food'']\<rparr>)
    = (Inr ((default_profile ''new_user'')\<lparr>interests := [''food'', ''food'']\<rparr>),
       [''new_user'' \<mapsto> (default_profile ''new_user'')\<lparr>interests := [''food'', ''food'']\<rparr>])
    \<and> \<not> distinct (interests ((default_profile ''new_user'')\<lparr>interests := [''food'', ''food'']\<rparr>))"
  by (simp add: update_user_profile_def get_or_create_user_profile_def no_updates_def
      or_default_def make_PersonalityType_default make_CommunicationStyle_default
      default_profile_def Let_def)

subsection \<open>Fallback synthesis\<close>

lemma persona_opening_nonempty: "persona_opening a n d \<noteq> []"
  by (simp add: persona_opening_def mark_sparkles_def mark_clipboard_def mark_gem_def
      mark_mountain_def mark_building_def mark_star_def)

lemma fallback_nonempty: "generate_fallback_response message p \<noteq> []"
  by (simp add: generate_fallback_response_def Let_def persona_opening_nonempty)

lemma length_suggestions: "length (generate_personalized_suggestions p message) \<le> 7"
  unfolding generate_personalized_suggestions_def Let_def length_take
  by (rule min.cobounded2)

lemma length_bookings: "length (generate_personalized_bookings p message) \<le> 5"
  unfolding generate_personalized_bookings_def Let_def length_take
  by (rule min.cobounded2)

text \<open>
  C5. For every message and every profile, whether or not a destination is recognized,
  fallback synthesis returns a text that is not empty, at most 7 suggestions and at most 5
  booking options. The three functions are total: every index the source reads is guarded
  (the tips are read under a test of the list and of its length), so none of them raises.
\<close>

theorem fallback_synthesis_nonempty_and_bounded:
  "generate_fallback_response message user_profile \<noteq> []
   \<and> length (generate_personalized_suggestions user_profile message) \<le> 7
   \<and> length (generate_personalized_bookings user_profile message) \<le> 5"
  using fallback_nonempty length_suggestions length_bookings by blast

subsection \<open>Failure of the generative call\<close>

lemma generate_failure_quota:
  assumes "sublist ''429'' e \<or> sublist ''quota'' (lower e)"
  shows "\<exists>r. fst (generate_personalized_response now (Inl e) user_profiles message uid sid) = Inr r
           \<and> agent_used r = ''Personalized Fallback Agent''
           \<and> response r = generate_fallback_response message
                             (analysed_profile now user_profiles message uid)"
  using assms
  by (auto simp add: generate_personalized_response_def get_or_create_no_data analysed_profile_def
      split: prod.splits)

lemma generate_failure_other:
  assumes "\<not> (sublist ''429'' e \<or> sublist ''quota'' (lower e))"
  shows "fst (generate_personalized_response now (Inl e) user_profiles message uid sid)
           = Inl (HTTPException 500 (''AI response generation failed: '' @ e))"
  using assms
  by (auto simp add: generate_personalized_response_def get_or_create_no_data
      split: prod.splits)

lemma no_quota_in_timeout:
  "\<not> (sublist ''429'' ''Connection timed out''
       \<or> sublist ''quota'' (lower ''Connection timed out''))"
  by (simp add: sublist_code(3) lower_def lower_char_def)

text \<open>
  C4, as the code has it. When the generative call raises, the text of the exception
  decides: if it contains \<open>429\<close>, or \<open>quota\<close> in any letter case, the response is the
  normal structure built by the fallback synthesizer from the analysed profile, with a text
  that is not empty; for every other exception an HTTP 500 error carrying the text is
  raised to the caller.
\<close>

theorem generate_failure_recovers_on_quota_only:
  "(sublist ''429'' e \<or> sublist ''quota'' (lower e) \<longrightarrow>
      (\<exists>r. fst (generate_personalized_response now (Inl e) user_profiles message uid sid) = Inr r
         \<and> agent_used r = ''Personalized Fallback Agent''
         \<and> response r = generate_fallback_response message
                           (analysed_profile now user_profiles message uid)
         \<and> response r \<noteq> []))
   \<and> (\<not> (sublist ''429'' e \<or> sublist ''quota'' (lower e)) \<longrightarrow>
        fst (generate_personalized_response now (Inl e) user_profiles message uid sid)
          = Inl (HTTPException 500 (''AI response generation failed: '' @ e)))"
proof (intro conjI impI)
  assume q: "sublist ''429'' e \<or> sublist ''quota'' (lower e)"
  from generate_failure_quota [OF q, of now user_profiles message uid sid]
  obtain r where r: "fst (generate_personalized_response now (Inl e) user_profiles message uid sid)
        = Inr r"
    "agent_used r = ''Personalized Fallback Agent''"
    "response r = generate_fallback_response message
                           (analysed_profile now user_profiles message uid)"
    by blast
  with fallback_nonempty [of message "analysed_profile now user_profiles message uid"]
  have "response r \<noteq> []" by simp
  with r show "\<exists>r. fst (generate_personalized_response now (Inl e) user_profiles message uid sid)
         = Inr r
         \<and> agent_used r = ''Personalized Fallback Agent''
         \<and> response r = generate_fallback_response message
                           (analysed_profile now user_profiles message uid)
         \<and> response r \<noteq> []"
    by blast
next
  assume "\<not> (sublist ''429'' e \<or> sublist ''quota'' (lower e))"
  then show "fst (generate_personalized_response now (Inl e) user_profiles message uid sid)
          = Inl (HTTPException 500 (''AI response generation failed: '' @ e))"
    by (rule generate_failure_other)
qed

theorem generate_failure_recovers_on_quota_only_witness:
  "sublist ''429'' ''429 Resource exhausted''
   \<and> (\<exists>r. fst (generate_personalized_response 0 (Inl ''429 Resource exhausted'') Map.empty
                 ''hello'' ''u1'' ''s1'') = Inr r
          \<and> agent_used r = ''Personalized Fallback Agent''
          \<and> response r \<noteq> [])"
proof -
  have q: "sublist ''429'' ''429 Resource exhausted''"
    by (simp add: sublist_code(3))
  with generate_failure_recovers_on_quota_only
    [of "''429 Resource exhausted''" 0 Map.empty "''hello''" "''u1''" "''s1''"]
  show ?thesis by blast
qed

text \<open>
  As stated, C4 fails: a timeout of the generative call is no quota error, and it reaches
  the caller as an HTTP 500 error.
\<close>

theorem generate_failure_timeout_is_surfaced:
  "fst (generate_personalized_response 0 (Inl ''Connection timed out'') Map.empty
          ''hello'' ''u1'' ''s1'')
     = Inl (HTTPException 500 ''AI response generation failed: Connection timed out'')"
  using generate_failure_other
    [OF no_quota_in_timeout, of 0 Map.empty "''hello''" "''u1''" "''s1''"]
  by simp

subsection \<open>Personalization score\<close>

text \<open>Rounding to the nearest float moves a number by at most half a unit in the last place.\<close>

lemma round_half_even_bounds:
  "y - 1 / 2 \<le> of_int (round_half_even y) \<and> of_int (round_half_even y) \<le> y + 1 / 2"
proof -
  define f where "f = \<lfloor>y\<rfloor>"
  have "of_int f \<le> y" "y < of_int f + 1" unfolding f_def by linarith+
  then have "y - 1 / 2 \<le> of_int (if y - of_int f < 1 / 2 then f
                 else if 1 / 2 < y - of_int f then f + 1 else if even f then f else f + 1)
    \<and> of_int (if y - of_int f < 1 / 2 then f
                 else if 1 / 2 < y - of_int f then f + 1 else if even f then f else f + 1)
        \<le> y + 1 / 2"
    by auto
  then show ?thesis by (simp only: round_half_even_def Let_def f_def)
qed

lemma round_half_even_nonneg: "0 \<le> y \<Longrightarrow> 0 \<le> round_half_even y"
proof -
  assume "0 \<le> y"
  then have "0 \<le> \<lfloor>y\<rfloor>" by simp
  then show ?thesis by (auto simp add: round_half_even_def Let_def)
qed

lemma double_nonneg: "0 \<le> x \<Longrightarrow> 0 \<le> double x"
proof (cases "x = 0")
  case True
  then show ?thesis by (simp add: double_def)
next
  case False
  assume x: "0 \<le> x"
  define ulp :: rat where "ulp = 2 powi (max (floor_log2 \<bar>x\<bar>) (- 1022) - 52)"
  have ulp: "0 < ulp" by (simp add: ulp_def)
  with x have "0 \<le> x / ulp" by simp
  then have "0 \<le> round_half_even (x / ulp)" by (rule round_half_even_nonneg)
  with ulp have "0 \<le> of_int (round_half_even (x / ulp)) * ulp" by simp
  with False show ?thesis by (simp add: double_def Let_def ulp_def)
qed

lemma floor_log2_small: "0 < x \<Longrightarrow> x < 2 \<Longrightarrow> floor_log2 x \<le> 0"
proof (cases "1 \<le> x")
  case True
  assume "x < 2"
  with True have "\<lfloor>x\<rfloor> = 1" by linarith
  with True show ?thesis by (simp add: floor_log2_def bitlen_alt_def)
next
  case False
  then show ?thesis using bitlen_nonneg [of "\<lceil>1 / x\<rceil> - 1"] by (simp add: floor_log2_def)
qed

lemma double_close_ulp:
  assumes "x \<noteq> 0"
  shows "\<bar>double x - x\<bar> \<le> 2 powi (max (floor_log2 \<bar>x\<bar>) (- 1022) - 52) / 2"
proof -
  define ulp :: rat where "ulp = 2 powi (max (floor_log2 \<bar>x\<bar>) (- 1022) - 52)"
  have ulp: "0 < ulp" by (simp add: ulp_def)
  define r where "r = round_half_even (x / ulp)"
  have d: "double x = of_int r * ulp" using assms by (simp add: double_def Let_def ulp_def r_def)
  from round_half_even_bounds [of "x / ulp"]
  have "x / ulp - 1 / 2 \<le> of_int r" "of_int r \<le> x / ulp + 1 / 2" by (simp_all add: r_def)
  with ulp have "(x / ulp - 1 / 2) * ulp \<le> of_int r * ulp" "of_int r * ulp \<le> (x / ulp + 1 / 2) * ulp"
    by (simp_all add: mult_right_mono)
  with ulp have "x - ulp / 2 \<le> of_int r * ulp" "of_int r * ulp \<le> x + ulp / 2"
    by (simp_all add: algebra_simps)
  with d have "\<bar>double x - x\<bar> \<le> ulp / 2" by linarith
  then show ?thesis by (simp only: ulp_def)
qed

lemma unit_roundoff_bounds: "0 < unit_roundoff" "unit_roundoff \<le> 1 / 1000000000000000"
  by (simp_all add: unit_roundoff_def)

lemma double_close:
  assumes "0 \<le> x" and "x < 2"
  shows "\<bar>double x - x\<bar> \<le> unit_roundoff"
proof (cases "x = 0")
  case True
  then show ?thesis by (simp add: double_def unit_roundoff_def)
next
  case False
  with assms have "floor_log2 \<bar>x\<bar> \<le> 0" by (simp add: floor_log2_small)
  then have "max (floor_log2 \<bar>x\<bar>) (- 1022) - 52 \<le> - 52" by simp
  then have "(2::rat) powi (max (floor_log2 \<bar>x\<bar>) (- 1022) - 52) \<le> 2 powi (- 52)"
    by (intro power_int_increasing) simp_all
  also have "(2::rat) powi (- 52) = 1 / 2 ^ 52" by (simp add: power_int_minus field_simps)
  finally have "(2::rat) powi (max (floor_log2 \<bar>x\<bar>) (- 1022) - 52) / 2 \<le> unit_roundoff"
    by (simp add: unit_roundoff_def)
  with double_close_ulp [OF False] show ?thesis by linarith
qed

lemma floor_log2_lower:
  assumes "1 \<le> x"
  shows "0 \<le> floor_log2 x \<and> 2 powi (floor_log2 x) \<le> x"
proof -
  from assms have pos: "0 < \<lfloor>x\<rfloor>" by simp
  then have b: "1 \<le> bitlen \<lfloor>x\<rfloor>" by (simp add: bitlen_alt_def)
  from bitlen_bounds [OF pos] have "2 ^ nat (bitlen \<lfloor>x\<rfloor> - 1) \<le> \<lfloor>x\<rfloor>" by simp
  then have "(of_int (2 ^ nat (bitlen \<lfloor>x\<rfloor> - 1)) :: rat) \<le> of_int \<lfloor>x\<rfloor>"
    by (simp only: of_int_le_iff)
  also have "\<dots> \<le> x" by simp
  finally have "(2::rat) ^ nat (bitlen \<lfloor>x\<rfloor> - 1) \<le> x" by simp
  moreover from b have "(2::rat) powi (bitlen \<lfloor>x\<rfloor> - 1) = 2 ^ nat (bitlen \<lfloor>x\<rfloor> - 1)"
    by (simp add: power_int_def)
  ultimately show ?thesis using assms b by (simp add: floor_log2_def)
qed

lemma double_large:
  assumes "1 \<le> x"
  shows "x / 2 \<le> double x"
proof -
  from assms have nz: "x \<noteq> 0" and ab: "\<bar>x\<bar> = x" by simp_all
  from floor_log2_lower [OF assms] have e: "0 \<le> floor_log2 x" and lb: "2 powi (floor_log2 x) \<le> x"
    by simp_all
  from e have m: "max (floor_log2 x) (- 1022) = floor_log2 x" by simp
  have "(2::rat) powi (floor_log2 x - 52) = 2 powi (floor_log2 x) / 2 ^ 52"
    by (simp add: power_int_diff)
  also have "\<dots> \<le> x / 2 ^ 52" using lb by (simp add: divide_right_mono)
  finally have u: "(2::rat) powi (floor_log2 x - 52) \<le> x / 2 ^ 52" .
  from double_close_ulp [OF nz] ab m
  have "\<bar>double x - x\<bar> \<le> 2 powi (floor_log2 x - 52) / 2" by simp
  then have "x - 2 powi (floor_log2 x - 52) / 2 \<le> double x" by linarith
  with u assms show ?thesis by simp
qed

lemma fadd_close:
  assumes "\<bar>s - x\<bar> \<le> e" and "\<bar>t - y\<bar> \<le> d" and "0 \<le> s" and "0 \<le> t"
    and "x + y \<le> 1" and "e + d \<le> 1 / 4"
  shows "\<bar>fadd s t - (x + y)\<bar> \<le> e + d + unit_roundoff" and "0 \<le> fadd s t"
proof -
  from assms have "0 \<le> s + t" "s + t < 2" by linarith+
  then have "\<bar>double (s + t) - (s + t)\<bar> \<le> unit_roundoff" by (rule double_close)
  with assms show "\<bar>fadd s t - (x + y)\<bar> \<le> e + d + unit_roundoff"
    unfolding fadd_def by linarith
  from \<open>0 \<le> s + t\<close> show "0 \<le> fadd s t" unfolding fadd_def by (rule double_nonneg)
qed

lemma min_close:
  fixes a b a' b' k :: rat
  assumes "\<bar>a - a'\<bar> \<le> k" and "\<bar>b - b'\<bar> \<le> k"
  shows "\<bar>min a b - min a' b'\<bar> \<le> k"
  using assms unfolding min_def by (simp split: if_splits) linarith

lemma capped_term:
  fixes c0 C0 :: rat and N n :: nat
  assumes C0: "C0 = of_nat N * c0" and half: "C0 \<le> 1 / 2" and one: "c0 \<le> 1"
    and big: "(of_nat N + 3) * unit_roundoff \<le> c0"
  shows "\<bar>min (fmul (of_nat n) (double c0)) (double C0) - min (of_nat n * c0) C0\<bar>
           \<le> (of_nat N + 1) * unit_roundoff"
    and "0 \<le> min (fmul (of_nat n) (double c0)) (double C0)"
proof -
  define c where "c = double c0"
  define C where "C = double C0"
  define y where "y = of_nat n * c"
  note u = unit_roundoff_bounds
  have Npos: "(0::rat) \<le> of_nat N" by simp
  with u have Nu: "0 \<le> of_nat N * unit_roundoff" by simp
  from big have big': "of_nat N * unit_roundoff + 3 * unit_roundoff \<le> c0"
    by (simp add: algebra_simps)
  with Nu u have c0pos: "0 \<le> c0" by linarith
  from C0 c0pos have C0pos: "0 \<le> C0" by simp
  from c0pos one have "c0 < 2" by simp
  with c0pos have c: "\<bar>c - c0\<bar> \<le> unit_roundoff" "0 \<le> c"
    unfolding c_def by (auto intro: double_close double_nonneg)
  from half have "C0 < 2" by simp
  with C0pos have C: "\<bar>C - C0\<bar> \<le> unit_roundoff" "0 \<le> C"
    unfolding C_def by (auto intro: double_close double_nonneg)
  from c have ypos: "0 \<le> y" unfolding y_def by simp
  have fm: "fmul (of_nat n) (double c0) = double y" by (simp add: fmul_def y_def c_def)
  from ypos have "0 \<le> double y" by (rule double_nonneg)
  with C show "0 \<le> min (fmul (of_nat n) (double c0)) (double C0)"
    unfolding fm C_def [symmetric] by simp
  have K: "(of_nat N + 1) * unit_roundoff = of_nat N * unit_roundoff + unit_roundoff"
    by (simp add: algebra_simps)
  show "\<bar>min (fmul (of_nat n) (double c0)) (double C0) - min (of_nat n * c0) C0\<bar>
           \<le> (of_nat N + 1) * unit_roundoff"
  proof (cases "n \<le> N")
    case True
    then have nN: "(of_nat n :: rat) \<le> of_nat N" by simp
    have "\<bar>y - of_nat n * c0\<bar> = of_nat n * \<bar>c - c0\<bar>"
      by (simp add: y_def abs_mult right_diff_distrib [symmetric])
    also have "\<dots> \<le> of_nat N * unit_roundoff"
      using nN c by (intro mult_mono) simp_all
    finally have yerr: "\<bar>y - of_nat n * c0\<bar> \<le> of_nat N * unit_roundoff" .
    from nN c0pos have nc0: "of_nat n * c0 \<le> C0" unfolding C0 by (rule mult_right_mono)
    from yerr nc0 big' half one u have "y < 2" by linarith
    with ypos have "\<bar>double y - y\<bar> \<le> unit_roundoff" by (rule double_close)
    with yerr have A: "\<bar>double y - of_nat n * c0\<bar> \<le> (of_nat N + 1) * unit_roundoff"
      unfolding K by linarith
    from C Nu have B: "\<bar>C - C0\<bar> \<le> (of_nat N + 1) * unit_roundoff"
      unfolding K by linarith
    from A B show ?thesis unfolding fm C_def [symmetric] by (rule min_close)
  next
    case False
    then have "N + 1 \<le> n" by simp
    then have "(of_nat (N + 1) :: rat) \<le> of_nat n" by (simp only: of_nat_le_iff)
    then have nN: "(of_nat N + 1 :: rat) \<le> of_nat n" by simp
    from nN c0pos have "(of_nat N + 1) * c0 \<le> of_nat n * c0" by (rule mult_right_mono)
    then have "C0 \<le> of_nat n * c0" unfolding C0 using c0pos by (simp add: algebra_simps)
    then have ex: "min (of_nat n * c0) C0 = C0" by simp
    from nN c have "(of_nat N + 1) * c \<le> y" unfolding y_def by (intro mult_right_mono) simp_all
    moreover have "c0 - unit_roundoff \<le> c" using c by linarith
    then have "(of_nat N + 1) * (c0 - unit_roundoff) \<le> (of_nat N + 1) * c"
      by (intro mult_left_mono) simp_all
    ultimately have ylow: "C0 + c0 - (of_nat N * unit_roundoff + unit_roundoff) \<le> y"
      unfolding C0 by (simp add: algebra_simps)
    have "C \<le> double y"
    proof (cases "y < 2")
      case True
      with ypos have "\<bar>double y - y\<bar> \<le> unit_roundoff" by (rule double_close)
      with ylow big' C show ?thesis by linarith
    next
      case False
      then have "1 \<le> y" by simp
      then have "y / 2 \<le> double y" by (rule double_large)
      with False C half u show ?thesis by linarith
    qed
    then have "min (double y) C = C" by simp
    with C ex Nu show ?thesis unfolding fm C_def [symmetric] K by linarith
  qed
qed

lemma timedelta_days_less_7: "timedelta_days now t < 7 \<longleftrightarrow> now - t < 7 * 86400000000"
proof -
  define a where "a = now - t"
  define q where "q = a div 86400000000"
  define m where "m = a mod 86400000000"
  have "a = q * 86400000000 + m" unfolding q_def m_def by simp
  moreover have "0 \<le> m" "m < 86400000000" unfolding m_def by simp_all
  ultimately have "q < 7 \<longleftrightarrow> a < 7 * 86400000000" by linarith
  then show ?thesis by (simp only: timedelta_days_def q_def a_def)
qed

lemma accumulated_score_unfold:
  "accumulated_score now p =
     (let s1 = (if truthy (name p) then fadd 0 (double (1 / 10)) else 0);
          s2 = (if truthy (age_group p) then fadd s1 (double (1 / 10)) else s1);
          s3 = (if truthy (budget_range p) then fadd s2 (double (15 / 100)) else s2);
          s4 = fadd s3 (min (fmul (of_nat (length (interests p))) (double (5 / 100)))
                            (double (2 / 10)));
          s5 = fadd s4 (min (fmul (of_nat (length (travel_history p))) (double (3 / 100)))
                            (double (15 / 100)));
          s6 = fadd s5 (min (fmul (of_nat (length (conversation_history p))) (double (1 / 100)))
                            (double (2 / 10)))
      in if recently_active now p then fadd s6 (double (1 / 10)) else s6)"
  unfolding accumulated_score_def recently_active_def Let_def
  by (cases "last_interaction p") (simp_all only: option.case timedelta_days_less_7 if_False)

text \<open>
  The accumulation, step by step: each partial sum stays within a bound of the exact one
  that grows by the error of the term added and by one rounding.
\<close>

lemma weight_added:
  assumes "\<bar>s - x\<bar> \<le> e" and "0 \<le> s" and "0 \<le> w" and "w \<le> 1" and "x + w \<le> 1"
    and "e \<le> 1 / 8"
  shows "\<bar>(if c then fadd s (double w) else s) - (x + (if c then w else 0))\<bar>
           \<le> e + 2 * unit_roundoff"
    and "0 \<le> (if c then fadd s (double w) else s)"
proof -
  note u = unit_roundoff_bounds
  from assms have w: "\<bar>double w - w\<bar> \<le> unit_roundoff" "0 \<le> double w"
    by (auto intro: double_close double_nonneg)
  from u assms have "e + unit_roundoff \<le> 1 / 4" by linarith
  from fadd_close [OF assms(1) w(1) assms(2) w(2) assms(5) this]
  have "\<bar>fadd s (double w) - (x + w)\<bar> \<le> e + unit_roundoff + unit_roundoff"
    and "0 \<le> fadd s (double w)" by simp_all
  with assms u show "\<bar>(if c then fadd s (double w) else s) - (x + (if c then w else 0))\<bar>
           \<le> e + 2 * unit_roundoff"
    and "0 \<le> (if c then fadd s (double w) else s)"
    by (cases c; simp; linarith)+
qed

lemma accumulated_score_close:
  "\<bar>accumulated_score now p
     - ((if truthy (name p) then 1 / 10 else 0)
        + (if truthy (age_group p) then 1 / 10 else 0)
        + (if truthy (budget_range p) then 15 / 100 else 0)
        + min (of_nat (length (interests p)) * (5 / 100)) (2 / 10)
        + min (of_nat (length (travel_history p)) * (3 / 100)) (15 / 100)
        + min (of_nat (length (conversation_history p)) * (1 / 100)) (2 / 10)
        + (if recently_active now p then 1 / 10 else 0))\<bar>
     \<le> 43 * unit_roundoff
   \<and> 0 \<le> accumulated_score now p"
proof -
  note u = unit_roundoff_bounds
  define a where "a = truthy (name p)"
  define b where "b = truthy (age_group p)"
  define c where "c = truthy (budget_range p)"
  define r where "r = recently_active now p"
  define n1 where "n1 = length (interests p)"
  define n2 where "n2 = length (travel_history p)"
  define n3 where "n3 = length (conversation_history p)"
  define s1 where "s1 = (if a then fadd 0 (double (1 / 10)) else 0)"
  define s2 where "s2 = (if b then fadd s1 (double (1 / 10)) else s1)"
  define s3 where "s3 = (if c then fadd s2 (double (15 / 100)) else s2)"
  define t4 where "t4 = min (fmul (of_nat n1) (double (5 / 100))) (double (2 / 10))"
  define t5 where "t5 = min (fmul (of_nat n2) (double (3 / 100))) (double (15 / 100))"
  define t6 where "t6 = min (fmul (of_nat n3) (double (1 / 100))) (double (2 / 10))"
  define s4 where "s4 = fadd s3 t4"
  define s5 where "s5 = fadd s4 t5"
  define s6 where "s6 = fadd s5 t6"
  define s7 where "s7 = (if r then fadd s6 (double (1 / 10)) else s6)"
  define x1 :: rat where "x1 = (if a then 1 / 10 else 0)"
  define x2 :: rat where "x2 = x1 + (if b then 1 / 10 else 0)"
  define x3 :: rat where "x3 = x2 + (if c then 15 / 100 else 0)"
  define y4 :: rat where "y4 = min (of_nat n1 * (5 / 100)) (2 / 10)"
  define y5 :: rat where "y5 = min (of_nat n2 * (3 / 100)) (15 / 100)"
  define y6 :: rat where "y6 = min (of_nat n3 * (1 / 100)) (2 / 10)"
  have acc: "accumulated_score now p = s7"
    by (simp only: accumulated_score_unfold Let_def s7_def s6_def s5_def s4_def t6_def t5_def
        t4_def s3_def s2_def s1_def a_def b_def c_def r_def n1_def n2_def n3_def)
  have x1: "0 \<le> x1" "x1 \<le> 1 / 10" by (simp_all add: x1_def)
  have x2: "x2 \<le> 2 / 10" using x1 by (simp add: x2_def)
  have x3: "x3 \<le> 35 / 100" using x2 by (simp add: x3_def)
  have y4: "y4 \<le> 2 / 10" by (simp add: y4_def)
  have y5: "y5 \<le> 15 / 100" by (simp add: y5_def)
  have y6: "y6 \<le> 2 / 10" by (simp add: y6_def)
  have e1: "\<bar>s1 - x1\<bar> \<le> 2 * unit_roundoff" "0 \<le> s1"
    using weight_added [of 0 0 0 "1 / 10" a] by (simp_all add: s1_def x1_def)
  have e2: "\<bar>s2 - x2\<bar> \<le> 4 * unit_roundoff" "0 \<le> s2"
    using weight_added [of s1 x1 "2 * unit_roundoff" "1 / 10" b] e1 x1 u
    by (simp_all add: s2_def x2_def)
  have e3: "\<bar>s3 - x3\<bar> \<le> 6 * unit_roundoff" "0 \<le> s3"
    using weight_added [of s2 x2 "4 * unit_roundoff" "15 / 100" c] e2 x2 u
    by (simp_all add: s3_def x3_def)
  have t4: "\<bar>t4 - y4\<bar> \<le> 5 * unit_roundoff" "0 \<le> t4"
    using capped_term [of "2 / 10" 4 "5 / 100" n1] u by (simp_all add: t4_def y4_def)
  have t5: "\<bar>t5 - y5\<bar> \<le> 6 * unit_roundoff" "0 \<le> t5"
    using capped_term [of "15 / 100" 5 "3 / 100" n2] u by (simp_all add: t5_def y5_def)
  have t6: "\<bar>t6 - y6\<bar> \<le> 21 * unit_roundoff" "0 \<le> t6"
    using capped_term [of "2 / 10" 20 "1 / 100" n3] u by (simp_all add: t6_def y6_def)
  have e4: "\<bar>s4 - (x3 + y4)\<bar> \<le> 12 * unit_roundoff" "0 \<le> s4"
    using fadd_close [of s3 x3 "6 * unit_roundoff" t4 y4 "5 * unit_roundoff"] e3 t4 x3 y4 u
    by (simp_all add: s4_def)
  have e5: "\<bar>s5 - (x3 + y4 + y5)\<bar> \<le> 19 * unit_roundoff" "0 \<le> s5"
    using fadd_close [of s4 "x3 + y4" "12 * unit_roundoff" t5 y5 "6 * unit_roundoff"]
      e4 t5 x3 y4 y5 u
    by (simp_all add: s5_def)
  have e6: "\<bar>s6 - (x3 + y4 + y5 + y6)\<bar> \<le> 41 * unit_roundoff" "0 \<le> s6"
    using fadd_close [of s5 "x3 + y4 + y5" "19 * unit_roundoff" t6 y6 "21 * unit_roundoff"]
      e5 t6 x3 y4 y5 y6 u
    by (simp_all add: s6_def)
  have e7: "\<bar>s7 - (x3 + y4 + y5 + y6 + (if r then 1 / 10 else 0))\<bar> \<le> 43 * unit_roundoff"
    "0 \<le> s7"
    using weight_added [of s6 "x3 + y4 + y5 + y6" "41 * unit_roundoff" "1 / 10" r]
      e6 x3 y4 y5 y6 u
    by (simp_all add: s7_def)
  then show ?thesis
    by (simp only: acc x3_def x2_def x1_def y4_def y5_def y6_def a_def b_def c_def r_def
        n1_def n2_def n3_def)
qed

lemma exact_weighted_sum_uncapped:
  "exact_weighted_sum now p =
     (if truthy (name p) then 1 / 10 else 0)
     + (if truthy (age_group p) then 1 / 10 else 0)
     + (if truthy (budget_range p) then 15 / 100 else 0)
     + min (of_nat (length (interests p)) * (5 / 100)) (2 / 10)
     + min (of_nat (length (travel_history p)) * (3 / 100)) (15 / 100)
     + min (of_nat (length (conversation_history p)) * (1 / 100)) (2 / 10)
     + (if recently_active now p then 1 / 10 else 0)"
proof -
  let ?a = "if truthy (name p) then 1 / 10 else (0::rat)"
  let ?b = "if truthy (age_group p) then 1 / 10 else (0::rat)"
  let ?c = "if truthy (budget_range p) then 15 / 100 else (0::rat)"
  let ?d = "min (of_nat (length (interests p)) * (5 / 100)) (2 / 10 :: rat)"
  let ?e = "min (of_nat (length (travel_history p)) * (3 / 100)) (15 / 100 :: rat)"
  let ?f = "min (of_nat (length (conversation_history p)) * (1 / 100)) (2 / 10 :: rat)"
  let ?g = "if recently_active now p then 1 / 10 else (0::rat)"
  have a: "?a \<le> 1 / 10" by simp
  have b: "?b \<le> 1 / 10" by simp
  have c: "?c \<le> 15 / 100" by simp
  have d: "?d \<le> 2 / 10" by (rule min.cobounded2)
  have e: "?e \<le> 15 / 100" by (rule min.cobounded2)
  have f: "?f \<le> 2 / 10" by (rule min.cobounded2)
  have g: "?g \<le> 1 / 10" by simp
  from a b c d e f g have "?a + ?b + ?c + ?d + ?e + ?f + ?g \<le> 1" by linarith
  then have "min 1 (?a + ?b + ?c + ?d + ?e + ?f + ?g) = ?a + ?b + ?c + ?d + ?e + ?f + ?g"
    by (rule min.absorb2)
  then show ?thesis
    unfolding exact_weighted_sum_def
    by (simp only: min.commute [of "2 / 10"] min.commute [of "15 / 100"])
qed

text \<open>
  The model gives the floats that the interpreter gives: 0.15000000000000002 for three
  interests, 0.12000000000000001 after a first exchange, and 1.0000000000000002 before the
  cap when every component is at its cap.
\<close>

lemma score_of_first_turn:
  "calculate_personalization_score 0 profile_after_first_turn
     = 8646911284551353 / 72057594037927936"
  unfolding profile_after_first_turn_def default_profile_def by code_simp

lemma score_at_all_caps:
  "accumulated_score 0 profile_at_all_caps = 4503599627370497 / 4503599627370496
   \<and> calculate_personalization_score 0 profile_at_all_caps = 1"
  unfolding profile_at_all_caps_def default_profile_def by code_simp

text \<open>
  A field counts as set by Python's truth test, which the code applies: a field that holds
  the empty string earns nothing, like one that is \<^verbatim>\<open>None\<close>.
\<close>

lemma score_of_empty_name:
  "calculate_personalization_score 0 ((default_profile ''u1'')\<lparr>name := Some []\<rparr>) = 0"
  unfolding default_profile_def by code_simp

text \<open>
  C6, as the code has it. The score is the weighted sum evaluated in double-precision
  floating point, every product and every addition rounded to the nearest float, and
  capped at 1.0: 0.1 if name is set, 0.1 if age\_group is set, 0.15 if budget\_range is set
  (set: holding a string that is not empty), 0.05 for each interest up to 0.2, 0.03 for
  each travel-history entry up to 0.15, 0.01 for each conversation-history entry up to 0.2,
  and 0.1 if fewer than 7 whole days lie between the last interaction and now. It is
  within \<open>43 / 2 ^ 53\<close> (less than 5 parts in \<open>10 ^ 15\<close>) of the exact weighted sum
  capped at 1, and it lies in [0,1].
\<close>

theorem personalization_score_close_to_weighted_sum:
  "\<bar>calculate_personalization_score now p - exact_weighted_sum now p\<bar> \<le> 43 / 2 ^ 53
   \<and> 0 \<le> calculate_personalization_score now p
   \<and> calculate_personalization_score now p \<le> 1"
proof -
  from accumulated_score_close [of now p] exact_weighted_sum_uncapped [of now p]
  have close: "\<bar>accumulated_score now p - exact_weighted_sum now p\<bar> \<le> 43 * unit_roundoff"
    and pos: "0 \<le> accumulated_score now p"
    by simp_all
  have cap: "exact_weighted_sum now p = min (exact_weighted_sum now p) 1"
    by (simp add: exact_weighted_sum_def)
  have "\<bar>(1::rat) - 1\<bar> \<le> 43 * unit_roundoff" using unit_roundoff_bounds by simp
  with close have "\<bar>min (accumulated_score now p) 1 - min (exact_weighted_sum now p) 1\<bar>
      \<le> 43 * unit_roundoff"
    by (rule min_close)
  with cap have "\<bar>calculate_personalization_score now p - exact_weighted_sum now p\<bar>
      \<le> 43 * unit_roundoff"
    by (simp add: calculate_personalization_score_def)
  moreover have "43 * unit_roundoff = 43 / 2 ^ 53" by (simp add: unit_roundoff_def)
  moreover from pos have "0 \<le> calculate_personalization_score now p"
    by (simp add: calculate_personalization_score_def)
  moreover have "calculate_personalization_score now p \<le> 1"
    by (simp add: calculate_personalization_score_def)
  ultimately show ?thesis by simp
qed

text \<open>
  As stated, C6 fails: with three interests and nothing else the exact weighted sum is
  0.15, and the score is the float 0.15000000000000002.
\<close>

theorem score_of_three_interests_is_not_exact:
  "calculate_personalization_score 0 profile_with_three_interests
     = 1351079888211149 / 9007199254740992
   \<and> exact_weighted_sum 0 profile_with_three_interests = 3 / 20
   \<and> calculate_personalization_score 0 profile_with_three_interests
       \<noteq> exact_weighted_sum 0 profile_with_three_interests"
proof -
  have score: "calculate_personalization_score 0 profile_with_three_interests
     = 1351079888211149 / 9007199254740992"
    unfolding profile_with_three_interests_def default_profile_def by code_simp
  have exact: "exact_weighted_sum 0 profile_with_three_interests = 3 / 20"
    by (simp add: exact_weighted_sum_uncapped profile_with_three_interests_def
        default_profile_def recently_active_def)
  from score exact show ?thesis by simp
qed

subsection \<open>Feedback\<close>








lemma update_learning_insights_other_fields:
  "(update_learning_insights now p)\<lparr>learning_insights := li\<rparr> = p\<lparr>learning_insights := li\<rparr>"
  by (simp add: update_learning_insights_def Let_def)


lemma update_learning_insights_scores:
  "satisfaction_scores (update_learning_insights now p) = satisfaction_scores p"
  by (simp add: update_learning_insights_def Let_def)

lemma update_learning_insights_feedback_history:
  "feedback_history (update_learning_insights now p) = feedback_history p"
  by (simp add: update_learning_insights_def Let_def)









lemma unrecognized_feedback_result:
  assumes "user_profiles uid = Some p"
    and "feedback_type \<notin> set [''rating'', ''thumbs'', ''detailed'', ''correction'']"
  shows "\<exists>r. process_user_feedback now user_profiles uid feedback_type fd rid
                  = (Inr r, user_profiles(uid \<mapsto> update_learning_insights now
                       (p\<lparr>feedback_history := feedback_history p
                            @ [\<lparr>fe_timestamp = now, fe_type = feedback_type, fe_data = fd,
                                fe_response_id = rid\<rparr>]\<rparr>)))
           \<and> success r"
  using assms by (simp add: process_user_feedback_def Let_def)

text \<open>
  C10. A feedback event for an existing user whose type is none of rating, thumbs,
  detailed, correction is accepted: the call returns success, the event is appended to
  feedback\_history, satisfaction\_scores is as before, and so is every other field of the
  profile but learning\_insights.
\<close>

theorem unrecognized_feedback_type_is_recorded:
  assumes "user_profiles uid = Some p"
    and "feedback_type \<notin> set [''rating'', ''thumbs'', ''detailed'', ''correction'']"
  shows "\<exists>r p'. process_user_feedback now user_profiles uid feedback_type fd rid
                  = (Inr r, user_profiles(uid \<mapsto> p'))
           \<and> success r
           \<and> feedback_history p' = feedback_history p
                @ [\<lparr>fe_timestamp = now, fe_type = feedback_type, fe_data = fd,
                    fe_response_id = rid\<rparr>]
           \<and> satisfaction_scores p' = satisfaction_scores p
           \<and> p'\<lparr>learning_insights := learning_insights p,
                 feedback_history := feedback_history p\<rparr> = p"
proof -
  from assms unrecognized_feedback_result
    [where user_profiles = user_profiles and uid = uid and p = p and now = now and fd = fd
       and rid = rid and feedback_type = feedback_type]
  obtain r p' where res: "process_user_feedback now user_profiles uid feedback_type fd rid
                  = (Inr r, user_profiles(uid \<mapsto> p'))"
    and ok: "success r"
    and p': "p' = update_learning_insights now
                       (p\<lparr>feedback_history := feedback_history p
                            @ [\<lparr>fe_timestamp = now, fe_type = feedback_type, fe_data = fd,
                                fe_response_id = rid\<rparr>]\<rparr>)"
    by blast
  have hist: "feedback_history p' = feedback_history p
                @ [\<lparr>fe_timestamp = now, fe_type = feedback_type, fe_data = fd,
                    fe_response_id = rid\<rparr>]"
    by (simp add: p' update_learning_insights_feedback_history)
  have scores: "satisfaction_scores p' = satisfaction_scores p"
    by (simp add: p' update_learning_insights_scores)
  have rest: "p'\<lparr>learning_insights := learning_insights p,
                 feedback_history := feedback_history p\<rparr> = p"
    by (simp add: p' update_learning_insights_other_fields)
  from res ok hist scores rest show ?thesis by blast
qed

theorem unrecognized_feedback_type_is_recorded_witness:
  "[''u1'' \<mapsto> default_profile ''u1''] ''u1'' = Some (default_profile ''u1'')
   \<and> ''emoji'' \<notin> set [''rating'', ''thumbs'', ''detailed'', ''correction'']
   \<and> (\<exists>r p'. process_user_feedback 7 [''u1'' \<mapsto> default_profile ''u1''] ''u1'' ''emoji''
                 no_feedback_data None
               = (Inr r, [''u1'' \<mapsto> default_profile ''u1''](''u1'' \<mapsto> p'))
          \<and> success r
          \<and> feedback_history p'
              = [\<lparr>fe_timestamp = 7, fe_type = ''emoji'', fe_data = no_feedback_data,
                  fe_response_id = None\<rparr>]
          \<and> satisfaction_scores p' = [])"
proof -
  have ex: "[''u1'' \<mapsto> default_profile ''u1''] ''u1'' = Some (default_profile ''u1'')"
    by simp
  have ty: "''emoji'' \<notin> set [''rating'', ''thumbs'', ''detailed'', ''correction'']"
    by simp
  from ex ty unrecognized_feedback_type_is_recorded
    [where user_profiles = "[''u1'' \<mapsto> default_profile ''u1'']" and uid = "''u1''"
       and p = "default_profile ''u1''" and now = 7 and rid = None
       and fd = no_feedback_data and feedback_type = "''emoji''"]
  obtain r p' where "process_user_feedback 7 [''u1'' \<mapsto> default_profile ''u1''] ''u1'' ''emoji''
                 no_feedback_data None
               = (Inr r, [''u1'' \<mapsto> default_profile ''u1''](''u1'' \<mapsto> p'))"
    and "success r"
    and "feedback_history p' = feedback_history (default_profile ''u1'')
              @ [\<lparr>fe_timestamp = 7, fe_type = ''emoji'', fe_data = no_feedback_data,
                  fe_response_id = None\<rparr>]"
    and "satisfaction_scores p' = satisfaction_scores (default_profile ''u1'')"
    by blast
  then have "process_user_feedback 7 [''u1'' \<mapsto> default_profile ''u1''] ''u1'' ''emoji''
                 no_feedback_data None
               = (Inr r, [''u1'' \<mapsto> default_profile ''u1''](''u1'' \<mapsto> p'))
          \<and> success r
          \<and> feedback_history p'
              = [\<lparr>fe_timestamp = 7, fe_type = ''emoji'', fe_data = no_feedback_data,
                  fe_response_id = None\<rparr>]
          \<and> satisfaction_scores p' = []"
    by (simp add: default_profile_def)
  with ex ty show ?thesis by blast
qed

subsection \<open>User statistics\<close>

text \<open>
  C9. For a user identifier that has no profile, \<open>get_user_stats\<close> returns the
  not-found dictionary and the endpoint turns it into an HTTP 404 error; the store is the
  one before the call, so no profile has been created.
\<close>

theorem stats_of_unknown_user_not_found:
  assumes "user_profiles uid = None"
  shows "get_user_stats now user_profiles uid = (Inl ''User not found'', user_profiles)
     \<and> api_get_user_stats now (Some user_profiles) uid
         = (Inl (HTTPException 404 ''User not found''), Some user_profiles)
     \<and> snd (get_user_stats now user_profiles uid) uid = None"
  using assms by (simp add: get_user_stats_def api_get_user_stats_def)

theorem stats_of_unknown_user_not_found_witness:
  "Map.empty ''ghost'' = (None :: UserProfile option)
   \<and> get_user_stats 0 Map.empty ''ghost'' = (Inl ''User not found'', Map.empty)
   \<and> api_get_user_stats 0 (Some Map.empty) ''ghost''
       = (Inl (HTTPException 404 ''User not found''), Some Map.empty)"
proof -
  have none: "Map.empty ''ghost'' = (None :: UserProfile option)" by simp
  from none stats_of_unknown_user_not_found
    [where user_profiles = Map.empty and uid = "''ghost''" and now = 0]
  show ?thesis by blast
qed

end
